theory Spec2Isabelle
  imports Complex_Main
begin

section \<open>Restricted Boltzmann Machines of \<^verbatim>\<open>rbm.py\<close>: the data model\<close>

text \<open>
  \<^verbatim>\<open>rbm.py\<close> builds Theano graphs: every method returns a symbolic expression, and
  \<^verbatim>\<open>training_updates\<close> returns a dictionary from shared variables to such expressions.
  The embedding keeps that: a Python method is a HOL function that returns the expression
  the method builds. What the methods do beyond returning a value (raising, allocating
  shared variables, drawing from a random stream, attaching an attribute to the model) is
  explicit: errors are values of \<open>error\<close>, and the mutable part of the Python heap is the
  record \<open>pystate\<close> that each such function takes and returns.
\<close>

subsection \<open>Arrays, shared variables, expressions\<close>

text \<open>
  A numpy array is known by how it was made and by its shape. The entries of an array made
  from a random generator or handed in by the caller are not tracked (\<open>array\<close>).
\<close>

datatype ndarray = zeros "int list" | ones "int list" | array "int list"

text \<open>
  A shared variable is a Python object: \<open>ident\<close> is its identity, given out by the
  allocation counter of \<open>pystate\<close>, and dictionaries keyed by shared variables compare
  these objects.
\<close>

datatype shared = SharedVariable (ident: nat) (name: string) (get_value: ndarray)

datatype dtype = floatX

text \<open>
  The Theano operations that \<^verbatim>\<open>rbm.py\<close> applies. \<open>Uniform r n size\<close> and
  \<open>Normal r n size\<close> are the \<open>n\<close>-th draw of the random stream \<open>r\<close>;
  \<open>Grad cost wrt consider_constant\<close> is one component of \<^verbatim>\<open>tensor.grad\<close>.
\<close>

datatype expr =
    Variable string
  | Shared shared
  | Constant real
  | Dot expr expr
  | Add expr expr
  | AddN "expr list"
  | Sub expr expr
  | Mul expr expr
  | TrueDiv expr expr
  | Neg expr
  | Power expr expr
  | Sigmoid expr
  | Softplus expr
  | Exp expr
  | Sqrt expr
  | Sqr expr
  | SumAxis expr nat
  | Mean expr
  | Cast expr dtype
  | LT expr expr
  | Uniform nat nat "int list"
  | Normal nat nat "int list"
  | Clip expr expr expr
  | Reshape expr "int list"
  | Transpose expr
  | DimShuffle expr "nat option list"
  | Flatten expr nat
  | Grad expr expr "expr list"

text \<open>
  Several methods accept a symbolic variable or a list of them
  (\<^verbatim>\<open>isinstance(v, tensor.Variable)\<close>).
\<close>

datatype tensor_like = Tensor expr | TList "tensor_like list"

datatype error =
    NotImplementedError string
  | UnboundLocalError string
  | IndexError
  | AssertionError
  | TypeError
  | ValueError
  | AttributeError
  | MergeCollision

subsection \<open>The mutable state\<close>

text \<open>
  \<open>next_id\<close> is the identity of the next object to be created; \<open>h_sample_attr\<close> maps
  the identity of a model object to its attribute \<^verbatim>\<open>h_sample\<close>, the only attribute
  that is attached to a model after its construction (\<open>None\<close>: \<^verbatim>\<open>hasattr\<close> is false);
  \<open>draws\<close> maps a random stream to the number of draws taken from it so far.
\<close>

record pystate =
  next_id :: nat
  h_sample_attr :: "nat \<Rightarrow> shared option"
  draws :: "nat \<Rightarrow> nat"

text \<open>
  Modelled from the spec: \<^verbatim>\<open>sharedX\<close> is imported from \<^verbatim>\<open>utils.py\<close>, and its body is not
  part of \<^verbatim>\<open>rbm.py\<close>. The spec counts it under the shared-variable infrastructure; it
  is taken to create a new shared variable holding the given array under the given name.
\<close>

definition sharedX :: "ndarray \<Rightarrow> string \<Rightarrow> pystate \<Rightarrow> shared \<times> pystate" where
  "sharedX val nm st =
     (SharedVariable (next_id st) nm val, st\<lparr>next_id := Suc (next_id st)\<rparr>)"

text \<open>
  Modelled from the spec: the random draw source (\<^verbatim>\<open>RandomStreams\<close> of Theano) returns
  a new, independent draw at every request and advances; the numbers drawn are not
  modelled, a draw is known by its stream and its position in the stream.
\<close>

definition RandomStreams :: "pystate \<Rightarrow> nat \<times> pystate" where
  "RandomStreams st = (next_id st, st\<lparr>next_id := Suc (next_id st)\<rparr>)"

definition uniform :: "nat \<Rightarrow> int list \<Rightarrow> pystate \<Rightarrow> expr \<times> pystate" where
  "uniform rng sz st =
     (Uniform rng (draws st rng) sz,
      st\<lparr>draws := (draws st)(rng := Suc (draws st rng))\<rparr>)"

definition normal :: "nat \<Rightarrow> int list \<Rightarrow> pystate \<Rightarrow> expr \<times> pystate" where
  "normal rng sz st =
     (Normal rng (draws st rng) sz,
      st\<lparr>draws := (draws st)(rng := Suc (draws st rng))\<rparr>)"

subsection \<open>Model objects\<close>

text \<open>
  The attributes that the constructors set. \<open>oid\<close> is the identity of the object and
  \<open>params_attr\<close> the attribute \<^verbatim>\<open>_params\<close>. \<^verbatim>\<open>mu_pooled_ssRBM.__init__\<close> does not call
  the constructor of \<^verbatim>\<open>RBM\<close>, so a pooled model has the common attributes and its own,
  and none of \<open>visbias\<close>, \<open>hidbias\<close>, \<open>weights\<close>; its attributes \<^verbatim>\<open>b\<close>, \<^verbatim>\<open>W\<close> and
  \<^verbatim>\<open>B\<close> are \<open>hid_b\<close>, \<open>vis_W\<close> and \<open>vis_B\<close> here.
\<close>

record Block_obj =
  oid :: nat
  batch_size :: int
  nhid :: int
  nvis :: int
  params_attr :: "shared list"

record RBM_obj = Block_obj +
  visbias :: shared
  hidbias :: shared
  weights :: shared

record GaussianBinaryRBM_obj = RBM_obj +
  sigma :: shared
  mean_vis :: "bool option"

record mu_pooled_ssRBM_obj = Block_obj +
  nslab :: int
  n_s_per_h :: int
  log_alpha :: shared
  alpha :: expr
  mu :: shared
  hid_b :: shared
  vis_W :: shared
  vis_B :: shared
  Lambda :: shared

datatype model =
    RBM RBM_obj
  | GaussianBinaryRBM GaussianBinaryRBM_obj
  | mu_pooled_ssRBM mu_pooled_ssRBM_obj

fun attrs :: "model \<Rightarrow> Block_obj" where
  "attrs (RBM self) = Block_obj.truncate self"
| "attrs (GaussianBinaryRBM self) = Block_obj.truncate self"
| "attrs (mu_pooled_ssRBM self) = Block_obj.truncate self"

text \<open>
  Modelled from the spec: \<^verbatim>\<open>params\<close> is inherited from \<^verbatim>\<open>Block\<close> of \<^verbatim>\<open>base.py\<close>, and
  its body is not part of \<^verbatim>\<open>rbm.py\<close>; by the spec it returns the ordered sequence of
  the model's parameters, which the constructors store in \<^verbatim>\<open>_params\<close>.
\<close>

definition params :: "model \<Rightarrow> shared list" where
  "params self = params_attr (attrs self)"

section \<open>The RBM variants\<close>

subsection \<open>\<^verbatim>\<open>input_to_h_from_v\<close>\<close>

text \<open>
  Each function below is the branch of its method for a symbolic variable; the branch
  for a list maps the method over the list and is given after the dispatch.
\<close>

definition RBM_input_to_h_from_v :: "'a RBM_obj_scheme \<Rightarrow> expr \<Rightarrow> expr" where
  "RBM_input_to_h_from_v self v =
     Add (Shared (hidbias self)) (Dot v (Shared (weights self)))"

definition GaussianBinaryRBM_input_to_h_from_v ::
  "'a GaussianBinaryRBM_obj_scheme \<Rightarrow> expr \<Rightarrow> expr" where
  "GaussianBinaryRBM_input_to_h_from_v self v =
     Add (Shared (hidbias self))
         (Dot (TrueDiv v (Shared (sigma self))) (Shared (weights self)))"

definition sum_s :: "'a mu_pooled_ssRBM_obj_scheme \<Rightarrow> expr \<Rightarrow> expr" where
  "sum_s self x = SumAxis (Reshape x [-1, nhid self, n_s_per_h self]) 2"

definition mu_pooled_ssRBM_input_to_h_from_v ::
  "'a mu_pooled_ssRBM_obj_scheme \<Rightarrow> expr \<Rightarrow> expr" where
  "mu_pooled_ssRBM_input_to_h_from_v self v =
     (let D = Shared (Lambda self);
          alpha' = alpha self
      in AddN [Shared (hid_b self),
               Mul (Constant (- 0.5)) (Dot (Mul v v) D),
               sum_s self (Mul (Shared (mu self)) (Dot v (Shared (vis_W self)))),
               sum_s self (TrueDiv (Mul (Constant 0.5) (Sqr (Dot v (Shared (vis_W self)))))
                                   alpha')])"

fun input_to_h_from_v :: "model \<Rightarrow> expr \<Rightarrow> expr" where
  "input_to_h_from_v (RBM self) v = RBM_input_to_h_from_v self v"
| "input_to_h_from_v (GaussianBinaryRBM self) v = GaussianBinaryRBM_input_to_h_from_v self v"
| "input_to_h_from_v (mu_pooled_ssRBM self) v = mu_pooled_ssRBM_input_to_h_from_v self v"

subsection \<open>\<^verbatim>\<open>mean_h_given_v\<close>, \<^verbatim>\<open>mean_v_given_h\<close>\<close>

text \<open>\<^verbatim>\<open>RBM.mean_h_given_v\<close> is inherited by both subclasses.\<close>

definition mean_h_given_v :: "model \<Rightarrow> expr \<Rightarrow> expr" where
  "mean_h_given_v self v = Sigmoid (input_to_h_from_v self v)"

definition RBM_mean_v_given_h :: "'a RBM_obj_scheme \<Rightarrow> expr \<Rightarrow> expr" where
  "RBM_mean_v_given_h self h =
     Sigmoid (Add (Shared (visbias self)) (Dot h (Transpose (Shared (weights self)))))"

definition GaussianBinaryRBM_mean_v_given_h ::
  "'a GaussianBinaryRBM_obj_scheme \<Rightarrow> expr \<Rightarrow> expr" where
  "GaussianBinaryRBM_mean_v_given_h self h =
     Add (Shared (visbias self))
         (Mul (Shared (sigma self)) (Dot h (Transpose (Shared (weights self)))))"

definition mu_pooled_ssRBM_mean_v_given_h ::
  "'a mu_pooled_ssRBM_obj_scheme \<Rightarrow> expr \<Rightarrow> error + expr" where
  "mu_pooled_ssRBM_mean_v_given_h self h =
     Inl (NotImplementedError ''mu_pooled_ssRBM.mean_v_given_h'')"

fun mean_v_given_h :: "model \<Rightarrow> expr \<Rightarrow> error + expr" where
  "mean_v_given_h (RBM self) h = Inr (RBM_mean_v_given_h self h)"
| "mean_v_given_h (GaussianBinaryRBM self) h = Inr (GaussianBinaryRBM_mean_v_given_h self h)"
| "mean_v_given_h (mu_pooled_ssRBM self) h = mu_pooled_ssRBM_mean_v_given_h self h"

subsection \<open>The branches for lists\<close>

fun RBM_input_to_h_from_v_like :: "'a RBM_obj_scheme \<Rightarrow> tensor_like \<Rightarrow> tensor_like" where
  "RBM_input_to_h_from_v_like self (Tensor v) = Tensor (RBM_input_to_h_from_v self v)"
| "RBM_input_to_h_from_v_like self (TList vs) =
     TList (map (RBM_input_to_h_from_v_like self) vs)"

fun GaussianBinaryRBM_input_to_h_from_v_like ::
  "'a GaussianBinaryRBM_obj_scheme \<Rightarrow> tensor_like \<Rightarrow> tensor_like" where
  "GaussianBinaryRBM_input_to_h_from_v_like self (Tensor v) =
     Tensor (GaussianBinaryRBM_input_to_h_from_v self v)"
| "GaussianBinaryRBM_input_to_h_from_v_like self (TList vs) =
     TList (map (GaussianBinaryRBM_input_to_h_from_v_like self) vs)"

fun mean_h_given_v_like :: "model \<Rightarrow> tensor_like \<Rightarrow> tensor_like" where
  "mean_h_given_v_like self (Tensor v) = Tensor (mean_h_given_v self v)"
| "mean_h_given_v_like self (TList vs) = TList (map (mean_h_given_v_like self) vs)"

fun RBM_mean_v_given_h_like :: "'a RBM_obj_scheme \<Rightarrow> tensor_like \<Rightarrow> tensor_like" where
  "RBM_mean_v_given_h_like self (Tensor h) = Tensor (RBM_mean_v_given_h self h)"
| "RBM_mean_v_given_h_like self (TList hs) = TList (map (RBM_mean_v_given_h_like self) hs)"

subsection \<open>\<^verbatim>\<open>free_energy_given_v\<close>\<close>

definition RBM_free_energy_given_v :: "RBM_obj \<Rightarrow> expr \<Rightarrow> expr" where
  "RBM_free_energy_given_v self v =
     (let sigmoid_arg = input_to_h_from_v (RBM self) v
      in Neg (Add (Dot v (Shared (visbias self))) (SumAxis (Softplus sigmoid_arg) 1)))"

definition GaussianBinaryRBM_free_energy_given_v ::
  "GaussianBinaryRBM_obj \<Rightarrow> expr \<Rightarrow> expr" where
  "GaussianBinaryRBM_free_energy_given_v self v =
     (let hid_inp = input_to_h_from_v (GaussianBinaryRBM self) v;
          squared_term =
            TrueDiv (Power (Sub (Shared (visbias self)) v) (Constant 2)) (Shared (sigma self))
      in Sub (SumAxis squared_term 1) (SumAxis (Softplus hid_inp) 1))"

definition mu_pooled_ssRBM_free_energy_given_v ::
  "mu_pooled_ssRBM_obj \<Rightarrow> expr \<Rightarrow> expr" where
  "mu_pooled_ssRBM_free_energy_given_v self v =
     (let sigmoid_arg = input_to_h_from_v (mu_pooled_ssRBM self) v
      in AddN [Mul (Constant 0.5)
                   (SumAxis (Mul (Shared (vis_B self)) (Power v (Constant 2))) 1),
               Neg (SumAxis (Softplus sigmoid_arg) 1)])"

fun free_energy_given_v :: "model \<Rightarrow> expr \<Rightarrow> expr" where
  "free_energy_given_v (RBM self) v = RBM_free_energy_given_v self v"
| "free_energy_given_v (GaussianBinaryRBM self) v = GaussianBinaryRBM_free_energy_given_v self v"
| "free_energy_given_v (mu_pooled_ssRBM self) v = mu_pooled_ssRBM_free_energy_given_v self v"

subsection \<open>\<^verbatim>\<open>ml_gradients\<close>\<close>

text \<open>
  \<^verbatim>\<open>tensor.grad(cost, wrt, consider_constant)\<close> returns one gradient for each variable of
  \<open>wrt\<close>, in that order.
\<close>

definition tensor_grad :: "expr \<Rightarrow> shared list \<Rightarrow> expr list \<Rightarrow> expr list" where
  "tensor_grad cost wrt consider_constant =
     map (\<lambda>p. Grad cost (Shared p) consider_constant) wrt"

definition ml_gradients :: "model \<Rightarrow> expr \<Rightarrow> expr \<Rightarrow> expr list" where
  "ml_gradients self pos_v neg_v =
     (let ml_cost = Sub (Mean (free_energy_given_v self pos_v))
                        (Mean (free_energy_given_v self neg_v));
          grads = tensor_grad ml_cost (params self) [pos_v, neg_v]
      in grads)"

subsection \<open>\<^verbatim>\<open>sample_visibles\<close>\<close>

text \<open>\<^verbatim>\<open>params[0]\<close> raises \<^verbatim>\<open>IndexError\<close> on the empty list.\<close>

definition RBM_sample_visibles ::
  "'a RBM_obj_scheme \<Rightarrow> expr list \<Rightarrow> int list \<Rightarrow> nat \<Rightarrow> pystate \<Rightarrow> (error + expr) \<times> pystate" where
  "RBM_sample_visibles self ps shape rng st =
     (case ps of
        [] \<Rightarrow> (Inl IndexError, st)
      | vm # _ \<Rightarrow>
          (let (u, st1) = uniform rng shape st
           in (Inr (Cast (LT u vm) floatX), st1)))"

definition GaussianBinaryRBM_sample_visibles ::
  "'a GaussianBinaryRBM_obj_scheme \<Rightarrow> expr list \<Rightarrow> int list \<Rightarrow> nat \<Rightarrow> pystate
     \<Rightarrow> (error + expr) \<times> pystate" where
  "GaussianBinaryRBM_sample_visibles self ps shape rng st =
     (case ps of
        [] \<Rightarrow> (Inl IndexError, st)
      | vm # _ \<Rightarrow>
          if mean_vis self = Some True then (Inr vm, st)
          else (let (n, st1) = normal rng shape st;
                    zero_mean = Mul n (Shared (sigma self))
                in (Inr (Add zero_mean vm), st1)))"

definition mu_pooled_ssRBM_sample_visibles ::
  "'a mu_pooled_ssRBM_obj_scheme \<Rightarrow> expr list \<Rightarrow> int list \<Rightarrow> nat \<Rightarrow> pystate
     \<Rightarrow> (error + expr) \<times> pystate" where
  "mu_pooled_ssRBM_sample_visibles self ps shape rng st =
     (Inl (NotImplementedError ''mu_pooled_ssRBM.sample_visibles''), st)"

fun sample_visibles ::
  "model \<Rightarrow> expr list \<Rightarrow> int list \<Rightarrow> nat \<Rightarrow> pystate \<Rightarrow> (error + expr) \<times> pystate" where
  "sample_visibles (RBM self) ps shape rng st = RBM_sample_visibles self ps shape rng st"
| "sample_visibles (GaussianBinaryRBM self) ps shape rng st =
     GaussianBinaryRBM_sample_visibles self ps shape rng st"
| "sample_visibles (mu_pooled_ssRBM self) ps shape rng st =
     mu_pooled_ssRBM_sample_visibles self ps shape rng st"

subsection \<open>\<^verbatim>\<open>gibbs_step_for_v\<close>\<close>

text \<open>
  The dictionary \<^verbatim>\<open>locals()\<close> that a Gibbs step returns, as a record of its keys. The
  keys that only the pooled model binds are optional.
\<close>

record gibbs_locals =
  l_self :: model
  l_v :: expr
  l_rng :: nat
  h_mean :: expr
  h_mean_shape :: "int \<times> int"
  h_sample :: expr
  v_mean_shape :: "int \<times> int"
  v_mean :: expr
  v_sample :: expr
  s_mu :: "expr option"
  s_var :: "expr option"
  s_mu_shape :: "(int \<times> int) option"
  s_sample :: "expr option"
  v_var :: "expr option"

text \<open>
  \<^verbatim>\<open>RBM.gibbs_step_for_v\<close>, inherited by \<^verbatim>\<open>GaussianBinaryRBM\<close>; \<open>self\<close> is the object
  the method is called on, whose own methods it calls.
\<close>

definition RBM_gibbs_step_for_v ::
  "model \<Rightarrow> expr \<Rightarrow> nat \<Rightarrow> pystate \<Rightarrow> (error + expr \<times> gibbs_locals) \<times> pystate" where
  "RBM_gibbs_step_for_v self v rng st =
     (let hm = mean_h_given_v self v;
          hm_shape = (batch_size (attrs self), nhid (attrs self));
          (u, st1) = uniform rng [fst hm_shape, snd hm_shape] st;
          hs = Cast (LT u hm) floatX;
          vm_shape = (batch_size (attrs self), nvis (attrs self))
      in case mean_v_given_h self hs of
           Inl e \<Rightarrow> (Inl e, st1)
         | Inr vm \<Rightarrow>
             (case sample_visibles self [vm] [fst vm_shape, snd vm_shape] rng st1 of
                (Inl e, st2) \<Rightarrow> (Inl e, st2)
              | (Inr vs, st2) \<Rightarrow>
                  (Inr (vs, \<lparr>l_self = self, l_v = v, l_rng = rng,
                             h_mean = hm, h_mean_shape = hm_shape, h_sample = hs,
                             v_mean_shape = vm_shape, v_mean = vm, v_sample = vs,
                             s_mu = None, s_var = None, s_mu_shape = None,
                             s_sample = None, v_var = None\<rparr>),
                   st2)))"

definition mean_var_v_given_h_s ::
  "'a mu_pooled_ssRBM_obj_scheme \<Rightarrow> expr \<Rightarrow> expr \<Rightarrow> expr \<times> expr" where
  "mean_var_v_given_h_s self h s =
     (let vv = TrueDiv (Constant 1)
                 (Add (Shared (vis_B self)) (Dot h (Transpose (Shared (Lambda self)))));
          s3 = Reshape s [-1, nhid self, n_s_per_h self];
          hs = Mul (DimShuffle h [Some 0, Some 1, None]) s3;
          v_mu = Mul (Dot (Flatten hs 2) (Transpose (Shared (vis_W self)))) vv
      in (v_mu, vv))"

definition mean_var_s_given_v_h1 ::
  "'a mu_pooled_ssRBM_obj_scheme \<Rightarrow> expr \<Rightarrow> expr \<times> expr" where
  "mean_var_s_given_v_h1 self v =
     (let alpha' = alpha self
      in (Add (Shared (mu self)) (TrueDiv (Dot v (Shared (vis_W self))) alpha'),
          TrueDiv (Constant 1.0) alpha'))"

definition mu_pooled_ssRBM_gibbs_step_for_v ::
  "mu_pooled_ssRBM_obj \<Rightarrow> expr \<Rightarrow> nat \<Rightarrow> pystate
     \<Rightarrow> (error + expr \<times> gibbs_locals) \<times> pystate" where
  "mu_pooled_ssRBM_gibbs_step_for_v self v rng st =
     (let hm = mean_h_given_v (mu_pooled_ssRBM self) v;
          hm_shape = (batch_size self, nhid self);
          (u, st1) = uniform rng [fst hm_shape, snd hm_shape] st;
          hs = Cast (LT u hm) floatX;
          (sm, sv) = mean_var_s_given_v_h1 self v;
          sm_shape = (batch_size self, nslab self);
          (n1, st2) = normal rng [fst sm_shape, snd sm_shape] st1;
          ss = Add sm (Mul n1 (Sqrt sv));
          (vm, vv) = mean_var_v_given_h_s self hs ss;
          vm_shape = (batch_size self, nvis self);
          (n2, st3) = normal rng [fst vm_shape, snd vm_shape] st2;
          vs = Add (Mul n2 (Sqrt vv)) vm
      in (Inr (vs, \<lparr>l_self = mu_pooled_ssRBM self, l_v = v, l_rng = rng,
                     h_mean = hm, h_mean_shape = hm_shape, h_sample = hs,
                     v_mean_shape = vm_shape, v_mean = vm, v_sample = vs,
                     s_mu = Some sm, s_var = Some sv, s_mu_shape = Some sm_shape,
                     s_sample = Some ss, v_var = Some vv\<rparr>),
          st3))"

fun gibbs_step_for_v ::
  "model \<Rightarrow> expr \<Rightarrow> nat \<Rightarrow> pystate \<Rightarrow> (error + expr \<times> gibbs_locals) \<times> pystate" where
  "gibbs_step_for_v (RBM self) v rng st = RBM_gibbs_step_for_v (RBM self) v rng st"
| "gibbs_step_for_v (GaussianBinaryRBM self) v rng st =
     RBM_gibbs_step_for_v (GaussianBinaryRBM self) v rng st"
| "gibbs_step_for_v (mu_pooled_ssRBM self) v rng st =
     mu_pooled_ssRBM_gibbs_step_for_v self v rng st"

subsection \<open>\<^verbatim>\<open>__call__\<close> and \<^verbatim>\<open>reconstruction_error\<close>\<close>

definition call :: "model \<Rightarrow> expr \<Rightarrow> expr" where
  "call self v = mean_h_given_v self v"

definition reconstruction_error ::
  "model \<Rightarrow> expr \<Rightarrow> nat \<Rightarrow> pystate \<Rightarrow> (error + expr) \<times> pystate" where
  "reconstruction_error self v rng st =
     (case gibbs_step_for_v self v rng st of
        (Inl e, st1) \<Rightarrow> (Inl e, st1)
      | (Inr (sample, ls), st1) \<Rightarrow>
          (Inr (Mean (SumAxis (Power (Sub (v_mean ls) v) (Constant 2)) 1)), st1))"

section \<open>Samplers\<close>

text \<open>
  The generator handed to a constructor: \<^verbatim>\<open>None\<close>, an integer seed, or a numpy
  \<^verbatim>\<open>RandomState\<close> (the only one of the three with an attribute \<^verbatim>\<open>randn\<close> or
  \<^verbatim>\<open>rand\<close>). The numbers a \<^verbatim>\<open>RandomState\<close> returns are not modelled, and a seed is
  taken to be one that numpy accepts.
\<close>

datatype py_rng = PyNone | PyInt int | RandomState

record Sampler_obj =
  rbm :: model
  s_rng :: nat
  particles :: shared

record PersistentCDSampler_obj = Sampler_obj +
  steps :: int
  particles_clip :: "(real \<times> real) option"

definition Sampler_init ::
  "model \<Rightarrow> ndarray \<Rightarrow> py_rng \<Rightarrow> pystate \<Rightarrow> Sampler_obj \<times> pystate" where
  "Sampler_init rbm' particles' rng st =
     (let (r, st1) = RandomStreams st;
          (p, st2) = sharedX particles' ''particles'' st1
      in (\<lparr>rbm = rbm', s_rng = r, particles = p\<rparr>, st2))"

definition Sampler_updates ::
  "'a Sampler_obj_scheme \<Rightarrow> pystate \<Rightarrow> (error + (shared \<rightharpoonup> expr)) \<times> pystate" where
  "Sampler_updates self st = (Inl (NotImplementedError []), st)"

definition PersistentCDSampler_init ::
  "model \<Rightarrow> ndarray \<Rightarrow> py_rng \<Rightarrow> int \<Rightarrow> (real \<times> real) option \<Rightarrow> pystate
     \<Rightarrow> PersistentCDSampler_obj \<times> pystate" where
  "PersistentCDSampler_init rbm' particles' rng steps' particles_clip' st =
     (let (base, st1) = Sampler_init rbm' particles' rng st
      in (Sampler_obj.extend base
            (PersistentCDSampler_obj.fields steps' particles_clip'), st1))"

text \<open>
  The loop of \<^verbatim>\<open>PersistentCDSampler.updates\<close>: \<open>n\<close> iterations remain, and the loop
  carries the local variables \<^verbatim>\<open>particles\<close> and \<^verbatim>\<open>_locals\<close>; \<^verbatim>\<open>_locals\<close> is unbound
  (\<open>None\<close>) until the first iteration binds it.
\<close>

fun gibbs_loop ::
  "PersistentCDSampler_obj \<Rightarrow> nat \<Rightarrow> expr \<Rightarrow> gibbs_locals option \<Rightarrow> pystate
     \<Rightarrow> (error + expr \<times> gibbs_locals option) \<times> pystate" where
  "gibbs_loop self 0 ps ls st = (Inr (ps, ls), st)"
| "gibbs_loop self (Suc n) ps ls st =
     (case gibbs_step_for_v (rbm self) ps (s_rng self) st of
        (Inl e, st1) \<Rightarrow> (Inl e, st1)
      | (Inr (ps1, ls1), st1) \<Rightarrow>
          gibbs_loop self n
            (case particles_clip self of
               None \<Rightarrow> ps1
             | Some (p_min, p_max) \<Rightarrow> Clip ps1 (Constant p_min) (Constant p_max))
            (Some ls1) st1)"

text \<open>
  \<^verbatim>\<open>xrange(steps)\<close> is empty for \<open>steps \<le> 0\<close>, as \<open>nat (steps self)\<close> is \<open>0\<close> then.
  The argument \<^verbatim>\<open>particles_clip\<close> of the method is never read.
\<close>

definition PersistentCDSampler_updates ::
  "PersistentCDSampler_obj \<Rightarrow> (real \<times> real) option \<Rightarrow> pystate
     \<Rightarrow> (error + (shared \<rightharpoonup> expr)) \<times> pystate" where
  "PersistentCDSampler_updates self particles_clip' st =
     (case gibbs_loop self (nat (steps self)) (Shared (particles self)) None st of
        (Inl e, st1) \<Rightarrow> (Inl e, st1)
      | (Inr (ps, ls), st1) \<Rightarrow>
          (let i = oid (attrs (rbm self));
               (hs, st2) =
                 (case h_sample_attr st1 i of
                    Some hs \<Rightarrow> (hs, st1)
                  | None \<Rightarrow>
                      (let (hs, st') = sharedX (zeros [0, 0]) ''h_sample'' st1
                       in (hs, st'\<lparr>h_sample_attr := (h_sample_attr st')(i := Some hs)\<rparr>)))
           in case ls of
                None \<Rightarrow> (Inl (UnboundLocalError ''_locals''), st2)
              | Some l \<Rightarrow> (Inr ([particles self \<mapsto> ps, hs \<mapsto> h_mean l]), st2)))"

datatype sampler = Sampler Sampler_obj | PersistentCDSampler PersistentCDSampler_obj

fun sampler_particles :: "sampler \<Rightarrow> shared" where
  "sampler_particles (Sampler self) = particles self"
| "sampler_particles (PersistentCDSampler self) = particles self"

fun sampler_updates :: "sampler \<Rightarrow> pystate \<Rightarrow> (error + (shared \<rightharpoonup> expr)) \<times> pystate" where
  "sampler_updates (Sampler self) st = Sampler_updates self st"
| "sampler_updates (PersistentCDSampler self) st = PersistentCDSampler_updates self None st"

section \<open>\<^verbatim>\<open>training_updates\<close>\<close>

text \<open>
  Modelled from the spec: \<^verbatim>\<open>safe_update\<close> is imported from \<^verbatim>\<open>utils.py\<close>, and its body
  is not part of \<^verbatim>\<open>rbm.py\<close>. By the spec it is a merge of the second update set into
  the first that detects key collisions: it fails when a key appears in both sets.
\<close>

definition safe_update ::
  "(shared \<rightharpoonup> expr) \<Rightarrow> (shared \<rightharpoonup> expr) \<Rightarrow> error + (shared \<rightharpoonup> expr)" where
  "safe_update dict_to dict_from =
     (if dom dict_to \<inter> dom dict_from = {} then Inr (dict_to ++ dict_from)
      else Inl MergeCollision)"

text \<open>
  The optimizer is any object with a method \<^verbatim>\<open>updates(gradients)\<close>; it is the function
  \<open>optimizer\<close> from the gradients and the state to an update set or an error.
\<close>

definition training_updates ::
  "expr \<Rightarrow> model \<Rightarrow> sampler
     \<Rightarrow> (expr list \<Rightarrow> pystate \<Rightarrow> (error + (shared \<rightharpoonup> expr)) \<times> pystate)
     \<Rightarrow> pystate \<Rightarrow> (error + (shared \<rightharpoonup> expr)) \<times> pystate" where
  "training_updates visible_batch model' sampler' optimizer st =
     (let pos_v = visible_batch;
          neg_v = Shared (sampler_particles sampler');
          grads = ml_gradients model' pos_v neg_v
      in case optimizer grads st of
           (Inl e, st1) \<Rightarrow> (Inl e, st1)
         | (Inr ups, st1) \<Rightarrow>
             (case sampler_updates sampler' st1 of
                (Inl e, st2) \<Rightarrow> (Inl e, st2)
              | (Inr sups, st2) \<Rightarrow>
                  (case safe_update ups sups of
                     Inl e \<Rightarrow> (Inl e, st2)
                   | Inr ups' \<Rightarrow> (Inr ups', st2))))"

section \<open>Constructors and the stacking utility\<close>

text \<open>
  \<^verbatim>\<open>numpy.zeros\<close>, \<^verbatim>\<open>numpy.ones\<close> and \<^verbatim>\<open>RandomState.rand\<close> raise \<^verbatim>\<open>ValueError\<close> on
  a negative dimension.
\<close>

definition negative_dimension :: "int list \<Rightarrow> bool" where
  "negative_dimension shape = list_ex (\<lambda>d. d < 0) shape"

definition numpy_zeros :: "int list \<Rightarrow> error + ndarray" where
  "numpy_zeros shape = (if negative_dimension shape then Inl ValueError else Inr (zeros shape))"

definition numpy_ones :: "int list \<Rightarrow> error + ndarray" where
  "numpy_ones shape = (if negative_dimension shape then Inl ValueError else Inr (ones shape))"

text \<open>
  \<^verbatim>\<open>rng.rand(nvis, nhid)\<close>: an integer has no attribute \<^verbatim>\<open>rand\<close>; \<^verbatim>\<open>None\<close> has been
  replaced by a \<^verbatim>\<open>RandomState\<close> before the call.
\<close>

definition rand :: "py_rng \<Rightarrow> int list \<Rightarrow> error + ndarray" where
  "rand rng shape =
     (case rng of
        RandomState \<Rightarrow> if negative_dimension shape then Inl ValueError else Inr (array shape)
      | _ \<Rightarrow> Inl AttributeError)"

text \<open>
  \<^verbatim>\<open>RBM.__init__\<close>. The object exists, with its identity, before the body runs; the
  arithmetic on the random array keeps its shape.
\<close>

definition RBM_init ::
  "int \<Rightarrow> int \<Rightarrow> int \<Rightarrow> real \<Rightarrow> py_rng \<Rightarrow> pystate \<Rightarrow> (error + RBM_obj) \<times> pystate" where
  "RBM_init nvis' nhid' batch_size' irange rng st =
     (let i = next_id st;
          st0 = st\<lparr>next_id := Suc (next_id st)\<rparr>;
          rng1 = (if rng = PyNone then RandomState else rng)
      in case numpy_zeros [nvis'] of
           Inl e \<Rightarrow> (Inl e, st0)
         | Inr z1 \<Rightarrow>
             (let (vb, st1) = sharedX z1 ''vb'' st0
              in case numpy_zeros [nhid'] of
                   Inl e \<Rightarrow> (Inl e, st1)
                 | Inr z2 \<Rightarrow>
                     (let (hb, st2) = sharedX z2 ''hb'' st1
                      in case rand rng1 [nvis', nhid'] of
                           Inl e \<Rightarrow> (Inl e, st2)
                         | Inr r \<Rightarrow>
                             (let (w, st3) = sharedX r ''W'' st2
                              in (Inr \<lparr>oid = i, batch_size = batch_size', nhid = nhid',
                                        nvis = nvis', params_attr = [vb, hb, w],
                                        visbias = vb, hidbias = hb, weights = w\<rparr>,
                                  st3)))))"

definition GaussianBinaryRBM_init ::
  "int \<Rightarrow> int \<Rightarrow> int \<Rightarrow> real \<Rightarrow> py_rng \<Rightarrow> bool option \<Rightarrow> pystate
     \<Rightarrow> (error + GaussianBinaryRBM_obj) \<times> pystate" where
  "GaussianBinaryRBM_init nvis' nhid' batch_size' irange rng mean_vis' st =
     (case RBM_init nvis' nhid' batch_size' irange rng st of
        (Inl e, st1) \<Rightarrow> (Inl e, st1)
      | (Inr base, st1) \<Rightarrow>
          (case numpy_ones [nvis'] of
             Inl e \<Rightarrow> (Inl e, st1)
           | Inr o1 \<Rightarrow>
               (let (sg, st2) = sharedX o1 ''sigma'' st1
                in (Inr (RBM_obj.extend base (GaussianBinaryRBM_obj.fields sg mean_vis')),
                    st2))))"

text \<open>
  \<^verbatim>\<open>mu_pooled_ssRBM.__init__\<close>. The arrays it makes by arithmetic on \<^verbatim>\<open>numpy.zeros\<close>
  and on random arrays are arrays of the same shape whose entries are not tracked; the
  random perturbation of \<^verbatim>\<open>alpha_init\<close> and the random \<^verbatim>\<open>Lambda\<close> need the generator
  only when their range is positive.
\<close>

definition mu_pooled_ssRBM_init ::
  "int \<Rightarrow> int \<Rightarrow> int \<Rightarrow> int \<Rightarrow> real \<Rightarrow> real \<Rightarrow> real \<Rightarrow> real \<Rightarrow> real \<Rightarrow> real \<Rightarrow> real \<Rightarrow> real
     \<Rightarrow> py_rng \<Rightarrow> pystate \<Rightarrow> (error + mu_pooled_ssRBM_obj) \<times> pystate" where
  "mu_pooled_ssRBM_init nvis' nhid' n_s_per_h' batch_size' alpha0 alpha_irange b0 B0
       Lambda0 Lambda_irange mu0 W_irange rng st =
     (let i = next_id st;
          st0 = st\<lparr>next_id := Suc (next_id st)\<rparr>;
          rng1 = (if rng = PyNone then RandomState else rng);
          nslab' = nhid' * n_s_per_h'
      in case numpy_zeros [nslab'] of
           Inl e \<Rightarrow> (Inl e, st0)
         | Inr z \<Rightarrow>
        (case (if alpha_irange > 0 then rand rng1 [nslab'] else Inr z) of
           Inl e \<Rightarrow> (Inl e, st0)
         | Inr r \<Rightarrow>
        (let (la, st1) = sharedX (array [nslab']) ''log_alpha'' st0;
             al = Exp (Shared la);
             (m, st2) = sharedX (array [nslab']) ''mu'' st1
         in case numpy_zeros [nhid'] of
              Inl e \<Rightarrow> (Inl e, st2)
            | Inr z \<Rightarrow>
        (let (hb, st3) = sharedX (array [nhid']) ''b'' st2
         in case rand rng1 [nvis', nslab'] of
              Inl e \<Rightarrow> (Inl e, st3)
            | Inr r \<Rightarrow>
        (let (w, st4) = sharedX (array [nvis', nslab']) ''W'' st3
         in case numpy_zeros [nvis'] of
              Inl e \<Rightarrow> (Inl e, st4)
            | Inr z \<Rightarrow>
        (let (vb, st5) = sharedX (array [nvis']) ''B'' st4
         in case (if Lambda_irange > 0 then rand rng1 [nvis', nhid']
                  else numpy_zeros [nvis', nhid']) of
              Inl e \<Rightarrow> (Inl e, st5)
            | Inr r \<Rightarrow>
        (let (lm, st6) = sharedX (array [nvis', nhid']) ''Lambda'' st5
         in (Inr \<lparr>oid = i, batch_size = batch_size', nhid = nhid', nvis = nvis',
                   params_attr = [m, vb, lm, w, hb, la],
                   nslab = nslab', n_s_per_h = n_s_per_h', log_alpha = la, alpha = al,
                   mu = m, hid_b = hb, vis_W = w, vis_B = vb, Lambda = lm\<rparr>,
             st6))))))))"

text \<open>
  Modelled from the spec: \<^verbatim>\<open>StackedBlocks\<close> is imported from \<^verbatim>\<open>base.py\<close>, and its body
  is not part of \<^verbatim>\<open>rbm.py\<close>; by the spec the stacking utility holds the ordered list of
  layers it is given.
\<close>

datatype stacked_blocks = StackedBlocks "model list"

text \<open>
  The loop of \<^verbatim>\<open>build_stacked_RBM\<close> over \<^verbatim>\<open>izip(xrange(len(nhids)), nhids, nviss)\<close>;
  the loop variable \<^verbatim>\<open>nvis\<close> is \<open>nvis'\<close>.
\<close>

fun build_layers ::
  "(nat \<times> int \<times> int) list \<Rightarrow> int \<Rightarrow> string \<Rightarrow> bool option \<Rightarrow> real \<Rightarrow> py_rng
     \<Rightarrow> model list \<Rightarrow> pystate \<Rightarrow> (error + model list) \<times> pystate" where
  "build_layers [] batch_size' vis_type input_mean_vis irange rng layers st =
     (Inr layers, st)"
| "build_layers ((k, nhid', nvis') # seq) batch_size' vis_type input_mean_vis irange rng layers st =
     (if k = 0 \<and> vis_type = ''gaussian'' then
        (case GaussianBinaryRBM_init nvis' nhid' batch_size' irange rng input_mean_vis st of
           (Inl e, st1) \<Rightarrow> (Inl e, st1)
         | (Inr rbm', st1) \<Rightarrow>
             build_layers seq batch_size' vis_type input_mean_vis irange rng
               (layers @ [GaussianBinaryRBM rbm']) st1)
      else
        (case RBM_init (nvis' - nvis') nhid' batch_size' irange rng st of
           (Inl e, st1) \<Rightarrow> (Inl e, st1)
         | (Inr rbm', st1) \<Rightarrow>
             build_layers seq batch_size' vis_type input_mean_vis irange rng
               (layers @ [RBM rbm']) st1))"

text \<open>
  \<^verbatim>\<open>assert input_mean_vis in True, False\<close> is the assertion of \<^verbatim>\<open>input_mean_vis in True\<close>
  with the message \<^verbatim>\<open>False\<close>; the membership test in a boolean raises \<^verbatim>\<open>TypeError\<close>.
\<close>

definition build_stacked_RBM ::
  "int \<Rightarrow> int list \<Rightarrow> int \<Rightarrow> string \<Rightarrow> bool option \<Rightarrow> real \<Rightarrow> py_rng \<Rightarrow> pystate
     \<Rightarrow> (error + stacked_blocks) \<times> pystate" where
  "build_stacked_RBM nvis' nhids batch_size' vis_type input_mean_vis irange rng st =
     (case (if vis_type \<notin> set [''binary'', ''gaussian''] then Some AssertionError
            else if vis_type = ''binary'' then
              (if input_mean_vis = None then None else Some AssertionError)
            else if vis_type = ''gaussian'' then Some TypeError
            else None) of
        Some e \<Rightarrow> (Inl e, st)
      | None \<Rightarrow>
          (let nviss = [nvis'] @ butlast nhids;
               seq = zip [0 ..< length nhids] (zip nhids nviss)
           in case build_layers seq batch_size' vis_type input_mean_vis irange rng [] st of
                (Inl e, st1) \<Rightarrow> (Inl e, st1)
              | (Inr layers, st1) \<Rightarrow> (Inr (StackedBlocks layers), st1)))"

section \<open>What the expressions evaluate to\<close>

text \<open>
  The value of an expression over the real numbers: its shape and its entry at every
  index. The operations are evaluated as numpy and Theano define them. The value of a
  leaf (an input, a shared variable, a random draw) is taken from the environment \<open>env\<close>,
  and so is the value of a gradient, of \<^verbatim>\<open>dimshuffle\<close> and \<^verbatim>\<open>flatten\<close>, and of
  \<^verbatim>\<open>clip\<close>, which is evaluated on floating-point values in the next section; a
  statement for all \<open>env\<close> holds whatever those are. Evaluation is total: where Theano
  would reject ill-matched shapes, the value here is some array, and the properties below
  state the shapes they assume.
\<close>

type_synonym tval = "nat list \<times> (nat list \<Rightarrow> real)"

definition sigmoid :: "real \<Rightarrow> real" where
  "sigmoid x = 1 / (1 + exp (- x))"

definition softplus :: "real \<Rightarrow> real" where
  "softplus x = ln (1 + exp x)"

text \<open>The power with a natural number as exponent is the repeated product.\<close>

definition pow_impl :: "real \<Rightarrow> real \<Rightarrow> real" where
  "pow_impl x y = (if y = real (nat \<lfloor>y\<rfloor>) then x ^ nat \<lfloor>y\<rfloor> else x powr y)"

text \<open>
  Broadcasting: shapes are aligned at their last dimension, a missing dimension and a
  dimension of length 1 are stretched, and the operand is read at index 0 along a
  stretched dimension.
\<close>

definition bdim :: "nat \<Rightarrow> nat \<Rightarrow> nat" where
  "bdim d e = (if d = 1 then e else d)"

definition broadcast_shape :: "nat list \<Rightarrow> nat list \<Rightarrow> nat list" where
  "broadcast_shape s t =
     (let n = max (length s) (length t)
      in map2 bdim (replicate (n - length s) 1 @ s) (replicate (n - length t) 1 @ t))"

definition broadcast_index :: "nat list \<Rightarrow> nat list \<Rightarrow> nat list" where
  "broadcast_index s idx =
     map2 (\<lambda>d i. if d = 1 then 0 else i) s (drop (length idx - length s) idx)"

definition entry_at :: "tval \<Rightarrow> nat list \<Rightarrow> real" where
  "entry_at a idx = snd a (broadcast_index (fst a) idx)"

definition elemwise1 :: "(real \<Rightarrow> real) \<Rightarrow> tval \<Rightarrow> tval" where
  "elemwise1 f a = (fst a, \<lambda>idx. f (snd a idx))"

definition elemwise2 :: "(real \<Rightarrow> real \<Rightarrow> real) \<Rightarrow> tval \<Rightarrow> tval \<Rightarrow> tval" where
  "elemwise2 f a b =
     (broadcast_shape (fst a) (fst b), \<lambda>idx. f (entry_at a idx) (entry_at b idx))"

text \<open>
  Row-major storage: \<open>ravel s idx\<close> is the position of the entry at \<open>idx\<close> in an array
  of shape \<open>s\<close>, \<open>unravel s k\<close> the index of the entry at position \<open>k\<close>.
\<close>

fun ravel :: "nat list \<Rightarrow> nat list \<Rightarrow> nat" where
  "ravel (d # ds) (i # is) = i * prod_list ds + ravel ds is"
| "ravel s idx = 0"

fun unravel :: "nat list \<Rightarrow> nat \<Rightarrow> nat list" where
  "unravel [] k = []"
| "unravel (d # ds) k = (k div prod_list ds) # unravel ds (k mod prod_list ds)"

text \<open>
  The shape a \<^verbatim>\<open>reshape\<close> asks for, with \<open>-1\<close> standing for the dimension that the
  number \<open>n\<close> of entries determines.
\<close>

definition resolve_shape :: "int list \<Rightarrow> nat \<Rightarrow> nat list" where
  "resolve_shape ns n =
     (let known = prod_list (map nat (filter (\<lambda>d. d \<noteq> - 1) ns))
      in map (\<lambda>d. if d = - 1 then n div known else nat d) ns)"

definition axis_length :: "nat list \<Rightarrow> nat \<Rightarrow> nat" where
  "axis_length s ax = (case drop ax s of [] \<Rightarrow> 0 | d # _ \<Rightarrow> d)"

definition sum_axis :: "tval \<Rightarrow> nat \<Rightarrow> tval" where
  "sum_axis a ax =
     (take ax (fst a) @ drop (Suc ax) (fst a),
      \<lambda>idx. \<Sum>k < axis_length (fst a) ax. snd a (take ax idx @ [k] @ drop ax idx))"

definition mean_all :: "tval \<Rightarrow> tval" where
  "mean_all a =
     ([], \<lambda>idx. (\<Sum>k < prod_list (fst a). snd a (unravel (fst a) k)) / real (prod_list (fst a)))"

text \<open>
  The product of a matrix or vector \<open>a\<close> with a matrix or vector \<open>b\<close>: the sum over
  the last axis of \<open>a\<close> and the first axis of \<open>b\<close>.
\<close>

definition dot :: "tval \<Rightarrow> tval \<Rightarrow> tval" where
  "dot a b =
     (let r = length (fst a) - 1
      in (take r (fst a) @ drop 1 (fst b),
          \<lambda>idx. \<Sum>l < axis_length (fst a) r.
                   snd a (take r idx @ [l]) * snd b (l # drop r idx)))"

fun eval :: "(expr \<Rightarrow> tval) \<Rightarrow> expr \<Rightarrow> tval" where
  "eval env (Constant c) = ([], \<lambda>idx. c)"
| "eval env (Dot x y) = dot (eval env x) (eval env y)"
| "eval env (Add x y) = elemwise2 (+) (eval env x) (eval env y)"
| "eval env (AddN xs) =
     (case map (eval env) xs of
        [] \<Rightarrow> ([], \<lambda>idx. 0)
      | a # as \<Rightarrow> foldl (elemwise2 (+)) a as)"
| "eval env (Sub x y) = elemwise2 (-) (eval env x) (eval env y)"
| "eval env (Mul x y) = elemwise2 (*) (eval env x) (eval env y)"
| "eval env (TrueDiv x y) = elemwise2 (/) (eval env x) (eval env y)"
| "eval env (Neg x) = elemwise1 uminus (eval env x)"
| "eval env (Power x y) = elemwise2 pow_impl (eval env x) (eval env y)"
| "eval env (Sigmoid x) = elemwise1 sigmoid (eval env x)"
| "eval env (Softplus x) = elemwise1 softplus (eval env x)"
| "eval env (Exp x) = elemwise1 exp (eval env x)"
| "eval env (Sqrt x) = elemwise1 sqrt (eval env x)"
| "eval env (Sqr x) = elemwise1 (\<lambda>r. r * r) (eval env x)"
| "eval env (SumAxis x ax) = sum_axis (eval env x) ax"
| "eval env (Mean x) = mean_all (eval env x)"
| "eval env (Cast x d) = eval env x"
| "eval env (LT x y) = elemwise2 (\<lambda>r s. if r < s then 1 else 0) (eval env x) (eval env y)"
| "eval env (Reshape x ns) =
     (let a = eval env x; s = resolve_shape ns (prod_list (fst a))
      in (s, \<lambda>idx. snd a (unravel (fst a) (ravel s idx))))"
| "eval env (Transpose x) = (let a = eval env x in (rev (fst a), \<lambda>idx. snd a (rev idx)))"
| "eval env e = env e"

section \<open>Floating-point values and clipping\<close>

text \<open>
  Whether a clipped entry lies in the range depends on what floating-point arithmetic
  has that the real numbers have not: the square root of a negative number and
  \<open>\<infinity> - \<infinity>\<close> are NaN, a division by zero is infinite, and every comparison with NaN
  is false. An entry is therefore NaN, an infinity or a real number here. Rounding,
  overflow and the sign of zero are not modelled: the arithmetic on the numbers is exact
  and zero counts as positive.
\<close>

datatype fl = NaN | NegInf | Float real | PosInf

fun fl_less :: "fl \<Rightarrow> fl \<Rightarrow> bool" where
  "fl_less NaN y = False"
| "fl_less x NaN = False"
| "fl_less x NegInf = False"
| "fl_less PosInf y = False"
| "fl_less NegInf y = True"
| "fl_less x PosInf = True"
| "fl_less (Float a) (Float b) = (a < b)"

fun fl_add :: "fl \<Rightarrow> fl \<Rightarrow> fl" where
  "fl_add NaN y = NaN"
| "fl_add x NaN = NaN"
| "fl_add (Float a) (Float b) = Float (a + b)"
| "fl_add PosInf NegInf = NaN"
| "fl_add NegInf PosInf = NaN"
| "fl_add PosInf y = PosInf"
| "fl_add x PosInf = PosInf"
| "fl_add NegInf y = NegInf"
| "fl_add x NegInf = NegInf"

definition fl_neg :: "fl \<Rightarrow> fl" where
  "fl_neg x = (case x of NaN \<Rightarrow> NaN | NegInf \<Rightarrow> PosInf | Float a \<Rightarrow> Float (- a) | PosInf \<Rightarrow> NegInf)"

text \<open>The product or quotient of an infinity with a number of the given sign.\<close>

definition signed_inf :: "real \<Rightarrow> fl" where
  "signed_inf a = (if 0 \<le> a then PosInf else NegInf)"

fun fl_mul :: "fl \<Rightarrow> fl \<Rightarrow> fl" where
  "fl_mul NaN y = NaN"
| "fl_mul x NaN = NaN"
| "fl_mul (Float a) (Float b) = Float (a * b)"
| "fl_mul (Float a) PosInf = (if a = 0 then NaN else signed_inf a)"
| "fl_mul (Float a) NegInf = (if a = 0 then NaN else signed_inf (- a))"
| "fl_mul PosInf (Float b) = (if b = 0 then NaN else signed_inf b)"
| "fl_mul NegInf (Float b) = (if b = 0 then NaN else signed_inf (- b))"
| "fl_mul PosInf PosInf = PosInf"
| "fl_mul NegInf NegInf = PosInf"
| "fl_mul PosInf NegInf = NegInf"
| "fl_mul NegInf PosInf = NegInf"

fun fl_div :: "fl \<Rightarrow> fl \<Rightarrow> fl" where
  "fl_div NaN y = NaN"
| "fl_div x NaN = NaN"
| "fl_div (Float a) (Float b) =
     (if b = 0 then (if a = 0 then NaN else signed_inf a) else Float (a / b))"
| "fl_div (Float a) y = Float 0"
| "fl_div PosInf (Float b) = signed_inf b"
| "fl_div NegInf (Float b) = signed_inf (- b)"
| "fl_div x y = NaN"

definition fl_sqrt :: "fl \<Rightarrow> fl" where
  "fl_sqrt x =
     (case x of
        NaN \<Rightarrow> NaN
      | NegInf \<Rightarrow> NaN
      | Float a \<Rightarrow> if a < 0 then NaN else Float (sqrt a)
      | PosInf \<Rightarrow> PosInf)"

definition fl_sigmoid :: "fl \<Rightarrow> fl" where
  "fl_sigmoid x =
     (case x of
        NaN \<Rightarrow> NaN
      | NegInf \<Rightarrow> Float 0
      | Float a \<Rightarrow> Float (sigmoid a)
      | PosInf \<Rightarrow> Float 1)"

text \<open>
  \<^verbatim>\<open>tensor.clip(x, min, max)\<close> replaces, entry by entry, what is below \<open>min\<close> by
  \<open>min\<close> and what is above \<open>max\<close> by \<open>max\<close>, by these two comparisons; a NaN is
  neither below nor above, and stays.
\<close>

definition clip_impl :: "fl \<Rightarrow> fl \<Rightarrow> fl \<Rightarrow> fl" where
  "clip_impl x lo hi = (if fl_less x lo then lo else if fl_less hi x then hi else x)"

type_synonym fval = "nat list \<times> (nat list \<Rightarrow> fl)"

definition fentry_at :: "fval \<Rightarrow> nat list \<Rightarrow> fl" where
  "fentry_at a idx = snd a (broadcast_index (fst a) idx)"

definition felemwise1 :: "(fl \<Rightarrow> fl) \<Rightarrow> fval \<Rightarrow> fval" where
  "felemwise1 f a = (fst a, \<lambda>idx. f (snd a idx))"

definition felemwise2 :: "(fl \<Rightarrow> fl \<Rightarrow> fl) \<Rightarrow> fval \<Rightarrow> fval \<Rightarrow> fval" where
  "felemwise2 f a b =
     (broadcast_shape (fst a) (fst b), \<lambda>idx. f (fentry_at a idx) (fentry_at b idx))"

definition fl_sum :: "(nat \<Rightarrow> fl) \<Rightarrow> nat \<Rightarrow> fl" where
  "fl_sum f n = foldl fl_add (Float 0) (map f [0 ..< n])"

definition fdot :: "fval \<Rightarrow> fval \<Rightarrow> fval" where
  "fdot a b =
     (let r = length (fst a) - 1
      in (take r (fst a) @ drop 1 (fst b),
          \<lambda>idx. fl_sum (\<lambda>l. fl_mul (snd a (take r idx @ [l])) (snd b (l # drop r idx)))
                   (axis_length (fst a) r)))"

text \<open>
  The floating-point value of an expression. The operations evaluated are those between
  the parameters, the random draws and a clipped visible sample of the binary-binary
  model, and those that make the variance, its square root and the noise of the visible
  sample of the pooled model; the value of every other expression is taken from \<open>env\<close>.
\<close>

fun feval :: "(expr \<Rightarrow> fval) \<Rightarrow> expr \<Rightarrow> fval" where
  "feval env (Constant c) = ([], \<lambda>idx. Float c)"
| "feval env (Dot x y) = fdot (feval env x) (feval env y)"
| "feval env (Add x y) = felemwise2 fl_add (feval env x) (feval env y)"
| "feval env (Mul x y) = felemwise2 fl_mul (feval env x) (feval env y)"
| "feval env (TrueDiv x y) = felemwise2 fl_div (feval env x) (feval env y)"
| "feval env (Neg x) = felemwise1 fl_neg (feval env x)"
| "feval env (Sigmoid x) = felemwise1 fl_sigmoid (feval env x)"
| "feval env (Sqrt x) = felemwise1 fl_sqrt (feval env x)"
| "feval env (Cast x d) = feval env x"
| "feval env (LT x y) =
     felemwise2 (\<lambda>r s. if fl_less r s then Float 1 else Float 0) (feval env x) (feval env y)"
| "feval env (Clip x lo hi) =
     (let a = feval env x; l = feval env lo; h = feval env hi
      in (broadcast_shape (broadcast_shape (fst a) (fst l)) (fst h),
          \<lambda>idx. clip_impl (fentry_at a idx) (fentry_at l idx) (fentry_at h idx)))"
| "feval env (Transpose x) = (let a = feval env x in (rev (fst a), \<lambda>idx. snd a (rev idx)))"
| "feval env e = env e"

section \<open>Auxiliary notions for the properties\<close>

text \<open>What one iteration of the sampler's loop makes of the sample \<open>v\<close> of its Gibbs step.\<close>

definition clipped :: "PersistentCDSampler_obj \<Rightarrow> expr \<Rightarrow> expr" where
  "clipped self v =
     (case particles_clip self of
        None \<Rightarrow> v
      | Some (p_min, p_max) \<Rightarrow> Clip v (Constant p_min) (Constant p_max))"

text \<open>
  The effect of \<^verbatim>\<open>if not hasattr(self.rbm, 'h_sample'): self.rbm.h_sample = sharedX(...)\<close>
  on the model with identity \<open>i\<close>, and the attribute it leaves.
\<close>

definition attach_h_sample :: "nat \<Rightarrow> pystate \<Rightarrow> shared \<times> pystate" where
  "attach_h_sample i st =
     (case h_sample_attr st i of
        Some hs \<Rightarrow> (hs, st)
      | None \<Rightarrow>
          (SharedVariable (next_id st) ''h_sample'' (zeros [0, 0]),
           st\<lparr>next_id := Suc (next_id st),
              h_sample_attr := (h_sample_attr st)
                (i := Some (SharedVariable (next_id st) ''h_sample'' (zeros [0, 0])))\<rparr>))"

text \<open>
  The two keys of the sampler's update set are two objects: the particles exist (their
  identity is below the allocation counter), and the attribute \<^verbatim>\<open>h_sample\<close> of the
  model, when it is set, is not the particles variable. A sampler is constructed in such a
  state when the attribute is an existing object (\<open>PersistentCDSampler_init_wf\<close>), and
  \<^verbatim>\<open>updates\<close> keeps it so (\<open>PersistentCDSampler_updates_h_sample\<close>).
\<close>

definition wf_sampler :: "PersistentCDSampler_obj \<Rightarrow> pystate \<Rightarrow> bool" where
  "wf_sampler self st =
     (ident (particles self) < next_id st
      \<and> h_sample_attr st (oid (attrs (rbm self))) \<noteq> Some (particles self))"

subsection \<open>Example objects\<close>

text \<open>
  A binary RBM with two visible units and one hidden unit, as \<^verbatim>\<open>RBM(2, 1, rng=None)\<close>
  makes it in the empty state, a persistent sampler on it, and a pooled model with one
  hidden unit over two slab units.
\<close>

definition example_state0 :: pystate where
  "example_state0 = \<lparr>next_id = 0, h_sample_attr = (\<lambda>i. None), draws = (\<lambda>r. 0)\<rparr>"

definition example_rbm :: RBM_obj where
  "example_rbm =
     \<lparr>oid = 0, batch_size = 10, nhid = 1, nvis = 2,
      params_attr = [SharedVariable 1 ''vb'' (zeros [2]), SharedVariable 2 ''hb'' (zeros [1]),
                     SharedVariable 3 ''W'' (array [2, 1])],
      visbias = SharedVariable 1 ''vb'' (zeros [2]),
      hidbias = SharedVariable 2 ''hb'' (zeros [1]),
      weights = SharedVariable 3 ''W'' (array [2, 1])\<rparr>"

definition example_particles :: shared where
  "example_particles = SharedVariable 5 ''particles'' (array [10, 2])"

definition example_sampler :: "int \<Rightarrow> (real \<times> real) option \<Rightarrow> PersistentCDSampler_obj" where
  "example_sampler k clip =
     \<lparr>rbm = RBM example_rbm, s_rng = 4, particles = example_particles,
      steps = k, particles_clip = clip\<rparr>"

definition example_state :: pystate where
  "example_state = \<lparr>next_id = 6, h_sample_attr = (\<lambda>i. None), draws = (\<lambda>r. 0)\<rparr>"

definition example_ssrbm :: mu_pooled_ssRBM_obj where
  "example_ssrbm =
     \<lparr>oid = 0, batch_size = 3, nhid = 1, nvis = 2,
      params_attr = [SharedVariable 2 ''mu'' (array [2]), SharedVariable 5 ''B'' (array [2]),
                     SharedVariable 6 ''Lambda'' (array [2, 1]),
                     SharedVariable 4 ''W'' (array [2, 2]), SharedVariable 3 ''b'' (array [1]),
                     SharedVariable 1 ''log_alpha'' (array [2])],
      nslab = 2, n_s_per_h = 2,
      log_alpha = SharedVariable 1 ''log_alpha'' (array [2]),
      alpha = Exp (Shared (SharedVariable 1 ''log_alpha'' (array [2]))),
      mu = SharedVariable 2 ''mu'' (array [2]),
      hid_b = SharedVariable 3 ''b'' (array [1]),
      vis_W = SharedVariable 4 ''W'' (array [2, 2]),
      vis_B = SharedVariable 5 ''B'' (array [2]),
      Lambda = SharedVariable 6 ''Lambda'' (array [2, 1])\<rparr>"

definition example_gaussian :: GaussianBinaryRBM_obj where
  "example_gaussian =
     \<lparr>oid = 0, batch_size = 3, nhid = 1, nvis = 2,
      params_attr = [SharedVariable 1 ''vb'' (zeros [2]), SharedVariable 2 ''hb'' (zeros [1]),
                     SharedVariable 3 ''W'' (array [2, 1])],
      visbias = SharedVariable 1 ''vb'' (zeros [2]),
      hidbias = SharedVariable 2 ''hb'' (zeros [1]),
      weights = SharedVariable 3 ''W'' (array [2, 1]),
      sigma = SharedVariable 4 ''sigma'' (ones [2]),
      mean_vis = Some False\<rparr>"

text \<open>
  An environment: a shared variable has the shape of its array and the entries 0 of
  \<open>zeros\<close>, 1 of \<open>ones\<close> and, for an array whose entries are not tracked, 2; every
  other leaf has shape \<open>(3, 2)\<close> and the entry \<open>10 i + c\<close> at \<open>(i, c)\<close>.
\<close>

definition ndarray_shape :: "ndarray \<Rightarrow> int list" where
  "ndarray_shape a = (case a of zeros s \<Rightarrow> s | ones s \<Rightarrow> s | array s \<Rightarrow> s)"

definition example_env :: "expr \<Rightarrow> tval" where
  "example_env e =
     (case e of
        Shared s \<Rightarrow>
          (map nat (ndarray_shape (get_value s)),
           \<lambda>idx. case get_value s of zeros _ \<Rightarrow> 0 | ones _ \<Rightarrow> 1 | array _ \<Rightarrow> 2)
      | _ \<Rightarrow> ([3, 2], \<lambda>idx. case idx of [i, c] \<Rightarrow> 10 * real i + real c | _ \<Rightarrow> 0))"

subsection \<open>Clipped particles\<close>

text \<open>
  Clamping into the range in the words of the specification, to be compared with
  \<open>clip_impl\<close>: a number is moved to the nearer bound when it is outside, an infinity
  to the bound on its side, and a NaN is no number to clamp. \<open>in_range\<close> is the
  statement that an entry lies in the range, which no NaN and no infinity does.
\<close>

definition clamped :: "fl \<Rightarrow> real \<Rightarrow> real \<Rightarrow> fl" where
  "clamped x lo hi =
     (case x of
        NaN \<Rightarrow> NaN
      | NegInf \<Rightarrow> Float lo
      | Float r \<Rightarrow> Float (max lo (min r hi))
      | PosInf \<Rightarrow> Float hi)"

definition in_range :: "fl \<Rightarrow> real \<Rightarrow> real \<Rightarrow> bool" where
  "in_range x lo hi = (case x of Float r \<Rightarrow> lo \<le> r \<and> r \<le> hi | _ \<Rightarrow> False)"

text \<open>
  The entry at \<open>idx\<close> of the value that the update set returned by \<^verbatim>\<open>updates\<close> gives
  to the particles, and to the attribute \<^verbatim>\<open>h_sample\<close> of the model.
\<close>

definition particles_update_entry ::
  "PersistentCDSampler_obj \<Rightarrow> pystate \<Rightarrow> (expr \<Rightarrow> fval) \<Rightarrow> nat list \<Rightarrow> fl option" where
  "particles_update_entry self st env idx =
     (case PersistentCDSampler_updates self None st of
        (Inl e, st') \<Rightarrow> None
      | (Inr ups, st') \<Rightarrow>
          (case ups (particles self) of
             None \<Rightarrow> None
           | Some ps \<Rightarrow> Some (snd (feval env ps) idx)))"

definition h_sample_update_entry ::
  "PersistentCDSampler_obj \<Rightarrow> pystate \<Rightarrow> (expr \<Rightarrow> fval) \<Rightarrow> nat list \<Rightarrow> fl option" where
  "h_sample_update_entry self st env idx =
     (case PersistentCDSampler_updates self None st of
        (Inl e, st') \<Rightarrow> None
      | (Inr ups, st') \<Rightarrow>
          (case h_sample_attr st' (oid (attrs (rbm self))) of
             None \<Rightarrow> None
           | Some hs \<Rightarrow>
               (case ups hs of
                  None \<Rightarrow> None
                | Some hm \<Rightarrow> Some (snd (feval env hm) idx))))"

text \<open>
  An environment for the example sampler: the particles and the biases are 0, every
  weight is 2, and a uniform draw is 0 in row 0 and \<open>3/4\<close> in every other row.
\<close>

definition chain_env :: "expr \<Rightarrow> fval" where
  "chain_env e =
     (case e of
        Shared s \<Rightarrow>
          (map nat (ndarray_shape (get_value s)),
           \<lambda>idx. if name s = ''W'' then Float 2 else Float 0)
      | Uniform r n sz \<Rightarrow>
          (map nat sz, \<lambda>idx. case idx of [] \<Rightarrow> Float 0
                                | i # _ \<Rightarrow> if i = 0 then Float 0 else Float (3 / 4))
      | _ \<Rightarrow> ([], \<lambda>idx. Float 0))"

text \<open>
  A persistent sampler on the example pooled model, as the constructor makes it after
  the model, with one step and the range \<open>(0, 1)\<close>; and an environment in which the
  precision \<^verbatim>\<open>B\<close> of the model is \<open>-1\<close> and its \<^verbatim>\<open>Lambda\<close> is 0, as the model's
  constructor makes them for \<^verbatim>\<open>B0 = -1\<close>, \<^verbatim>\<open>Lambda0 = 0\<close> and
  \<^verbatim>\<open>Lambda_irange = 0\<close>; every other parameter is 1 and every draw \<open>1/2\<close>.
\<close>

definition pooled_sampler :: PersistentCDSampler_obj where
  "pooled_sampler =
     \<lparr>rbm = mu_pooled_ssRBM example_ssrbm, s_rng = 7,
      particles = SharedVariable 8 ''particles'' (array [3, 2]),
      steps = 1, particles_clip = Some (0, 1)\<rparr>"

definition pooled_state :: pystate where
  "pooled_state = \<lparr>next_id = 9, h_sample_attr = (\<lambda>i. None), draws = (\<lambda>r. 0)\<rparr>"

definition nan_env :: "expr \<Rightarrow> fval" where
  "nan_env e =
     (case e of
        Shared s \<Rightarrow>
          (map nat (ndarray_shape (get_value s)),
           \<lambda>idx. if name s = ''B'' then Float (- 1)
                  else if name s = ''Lambda'' then Float 0 else Float 1)
      | Uniform r n sz \<Rightarrow> (map nat sz, \<lambda>idx. Float (1 / 2))
      | Normal r n sz \<Rightarrow> (map nat sz, \<lambda>idx. Float (1 / 2))
      | _ \<Rightarrow> ([], \<lambda>idx. Float 1))"

section \<open>Properties\<close>

subsection \<open>The example objects are what the constructors make\<close>

lemma example_constructed:
  "RBM_init 2 1 10 (1 / 2) PyNone example_state0 =
     (Inr example_rbm, example_state0\<lparr>next_id := 4\<rparr>)
   \<and> PersistentCDSampler_init (RBM example_rbm) (array [10, 2]) PyNone k clip
       (example_state0\<lparr>next_id := 4\<rparr>) = (example_sampler k clip, example_state)"
  by (simp add: RBM_init_def numpy_zeros_def negative_dimension_def rand_def sharedX_def Let_def
        example_state0_def example_rbm_def example_sampler_def example_state_def
        example_particles_def PersistentCDSampler_init_def Sampler_init_def RandomStreams_def
        Sampler_obj.extend_def PersistentCDSampler_obj.fields_def)

lemma example_variants_constructed:
  "GaussianBinaryRBM_init 2 1 3 (1 / 2) PyNone (Some False) example_state0 =
     (Inr example_gaussian, example_state0\<lparr>next_id := 5\<rparr>)
   \<and> mu_pooled_ssRBM_init 2 1 2 3 1 0 0 1 1 0 0 (1 / 10) PyNone example_state0 =
     (Inr example_ssrbm, example_state0\<lparr>next_id := 7\<rparr>)"
  by (simp add: GaussianBinaryRBM_init_def RBM_init_def mu_pooled_ssRBM_init_def numpy_zeros_def
        numpy_ones_def negative_dimension_def rand_def sharedX_def Let_def example_state0_def
        example_gaussian_def example_ssrbm_def RBM_obj.extend_def
        GaussianBinaryRBM_obj.fields_def)

lemma example_wf: "wf_sampler (example_sampler k clip) example_state"
  by (simp add: wf_sampler_def example_sampler_def example_state_def example_particles_def)

lemma example_updates:
  "PersistentCDSampler_updates (example_sampler 1 clip) None example_state =
     (Inr [example_particles \<mapsto>
             clipped (example_sampler 1 clip)
               (Cast (LT (Uniform 4 1 [10, 2])
                  (Sigmoid (Add (Shared (visbias example_rbm))
                     (Dot (Cast (LT (Uniform 4 0 [10, 1])
                                    (mean_h_given_v (RBM example_rbm) (Shared example_particles)))
                                floatX)
                          (Transpose (Shared (weights example_rbm))))))) floatX),
           SharedVariable 6 ''h_sample'' (zeros [0, 0]) \<mapsto>
             mean_h_given_v (RBM example_rbm) (Shared example_particles)],
      \<lparr>next_id = 7,
       h_sample_attr = (\<lambda>i. None)(0 := Some (SharedVariable 6 ''h_sample'' (zeros [0, 0]))),
       draws = (\<lambda>r. 0)(4 := Suc (Suc 0))\<rparr>)"
  by (simp add: PersistentCDSampler_updates_def example_sampler_def example_state_def example_rbm_def
       RBM_gibbs_step_for_v_def uniform_def RBM_sample_visibles_def RBM_mean_v_given_h_def
       Block_obj.truncate_def sharedX_def Let_def clipped_def example_particles_def
       split: option.splits)

subsection \<open>Training updates\<close>

text \<open>
  C1. For every visible minibatch, model, sampler and optimizer, in every state:
  \<^verbatim>\<open>training_updates\<close> calls the optimizer, in the state it was called in and before
  the sampler makes its updates, with one gradient for each parameter of the model, in
  the order of \<^verbatim>\<open>params()\<close>. Each is the gradient, with respect to that parameter, of
  the mean free energy of \<open>visible_batch\<close> minus the mean free energy of the particles
  of the sampler, the shared variable itself and no new sample of the chain, and both
  inputs are declared constant. What the optimizer returns is what \<^verbatim>\<open>training_updates\<close>
  goes on with: an error is raised as it is, an update set is merged with that of the
  sampler. These gradients are what \<^verbatim>\<open>ml_gradients\<close> builds for any two inputs, and the
  objective evaluates to a scalar, the mean over all entries of the free energy of the
  positive input minus that of the negative input.
\<close>

theorem training_updates_contrastive_divergence:
  "training_updates visible_batch m s optimizer st =
     (case optimizer
             (map (\<lambda>p. Grad (Sub (Mean (free_energy_given_v m visible_batch))
                                 (Mean (free_energy_given_v m (Shared (sampler_particles s)))))
                             (Shared p)
                             [visible_batch, Shared (sampler_particles s)])
                  (params m))
             st of
        (Inl e, st1) \<Rightarrow> (Inl e, st1)
      | (Inr ups, st1) \<Rightarrow>
          (case sampler_updates s st1 of
             (Inl e, st2) \<Rightarrow> (Inl e, st2)
           | (Inr sups, st2) \<Rightarrow>
               (case safe_update ups sups of
                  Inl e \<Rightarrow> (Inl e, st2)
                | Inr merged \<Rightarrow> (Inr merged, st2))))
   \<and> ml_gradients m positive negative =
       map (\<lambda>p. Grad (Sub (Mean (free_energy_given_v m positive))
                           (Mean (free_energy_given_v m negative)))
                       (Shared p) [positive, negative])
           (params m)
   \<and> (\<forall>env idx.
         fst (eval env (Sub (Mean (free_energy_given_v m positive))
                            (Mean (free_energy_given_v m negative)))) = []
       \<and> snd (eval env (Sub (Mean (free_energy_given_v m positive))
                            (Mean (free_energy_given_v m negative)))) idx =
           snd (mean_all (eval env (free_energy_given_v m positive))) []
           - snd (mean_all (eval env (free_energy_given_v m negative))) [])"
  by (simp add: training_updates_def ml_gradients_def tensor_grad_def Let_def
        elemwise2_def entry_at_def broadcast_shape_def broadcast_index_def mean_all_def)

text \<open>
  An optimizer that maps every parameter to the gradient it is given for it, on the
  example model and sampler: the update of each of the three parameters is the gradient
  of the objective on the input \<open>v\<close> and the particles variable, and the update of the
  particles is the sample of the sampler's Gibbs step.
\<close>

theorem training_updates_contrastive_divergence_witness:
  "\<exists>res. fst (training_updates (Variable ''v'') (RBM example_rbm)
                (PersistentCDSampler (example_sampler 1 None))
                (\<lambda>grads st. (Inr (map_of (zip (params (RBM example_rbm)) grads)), st))
                example_state) = Inr res
      \<and> res (visbias example_rbm) =
          Some (Grad (Sub (Mean (free_energy_given_v (RBM example_rbm) (Variable ''v'')))
                          (Mean (free_energy_given_v (RBM example_rbm)
                                   (Shared example_particles))))
                     (Shared (visbias example_rbm))
                     [Variable ''v'', Shared example_particles])
      \<and> res (hidbias example_rbm) =
          Some (Grad (Sub (Mean (free_energy_given_v (RBM example_rbm) (Variable ''v'')))
                          (Mean (free_energy_given_v (RBM example_rbm)
                                   (Shared example_particles))))
                     (Shared (hidbias example_rbm))
                     [Variable ''v'', Shared example_particles])
      \<and> res (weights example_rbm) =
          Some (Grad (Sub (Mean (free_energy_given_v (RBM example_rbm) (Variable ''v'')))
                          (Mean (free_energy_given_v (RBM example_rbm)
                                   (Shared example_particles))))
                     (Shared (weights example_rbm))
                     [Variable ''v'', Shared example_particles])
      \<and> res example_particles =
          Some (Cast (LT (Uniform 4 1 [10, 2])
                  (Sigmoid (Add (Shared (visbias example_rbm))
                     (Dot (Cast (LT (Uniform 4 0 [10, 1])
                                    (mean_h_given_v (RBM example_rbm) (Shared example_particles)))
                                floatX)
                          (Transpose (Shared (weights example_rbm))))))) floatX)"
proof -
  let ?s = "PersistentCDSampler (example_sampler 1 None)"
  let ?o = "\<lambda>(grads :: expr list) (st :: pystate).
              (Inr (map_of (zip (params (RBM example_rbm)) grads)) :: error + (shared \<rightharpoonup> expr),
               st)"
  have p: "sampler_particles ?s = example_particles" by (simp add: example_sampler_def)
  obtain sups st2 where u: "sampler_updates ?s example_state = (Inr sups, st2)"
      and sups: "sups = [example_particles \<mapsto>
             clipped (example_sampler 1 None)
               (Cast (LT (Uniform 4 1 [10, 2])
                  (Sigmoid (Add (Shared (visbias example_rbm))
                     (Dot (Cast (LT (Uniform 4 0 [10, 1])
                                    (mean_h_given_v (RBM example_rbm) (Shared example_particles)))
                                floatX)
                          (Transpose (Shared (weights example_rbm))))))) floatX),
           SharedVariable 6 ''h_sample'' (zeros [0, 0]) \<mapsto>
             mean_h_given_v (RBM example_rbm) (Shared example_particles)]"
    using example_updates [of None] by simp
  have c: "clipped (example_sampler 1 None) = (\<lambda>v. v)"
    by (simp add: clipped_def example_sampler_def fun_eq_iff)
  note t = training_updates_contrastive_divergence
             [of "Variable ''v''" "RBM example_rbm" ?s ?o example_state, THEN conjunct1]
  show ?thesis
    using u
    by (simp only: t p)
       (simp add: sups c params_def example_rbm_def example_particles_def safe_update_def
          Block_obj.truncate_def)
qed

text \<open>
  C2. For every visible minibatch, model, sampler and optimizer: when the optimizer
  returns the update set \<open>ups\<close> and the sampler the update set \<open>sups\<close>,
  \<^verbatim>\<open>training_updates\<close> fails with the collision error if a key is in both, and
  otherwise returns the merged set, whose keys are the union of the two key sets and
  whose values are those of \<open>ups\<close> and of \<open>sups\<close>.
\<close>

theorem training_updates_safe_merge:
  assumes "optimizer (ml_gradients m visible_batch (Shared (sampler_particles s))) st =
             (Inr ups, st1)"
      and "sampler_updates s st1 = (Inr sups, st2)"
  shows "training_updates visible_batch m s optimizer st =
           (if dom ups \<inter> dom sups = {} then (Inr (ups ++ sups), st2)
            else (Inl MergeCollision, st2))
         \<and> dom (ups ++ sups) = dom ups \<union> dom sups
         \<and> (\<forall>k \<in> dom sups. (ups ++ sups) k = sups k)
         \<and> (dom ups \<inter> dom sups = {} \<longrightarrow> (\<forall>k \<in> dom ups. (ups ++ sups) k = ups k))"
proof -
  have "training_updates visible_batch m s optimizer st =
           (if dom ups \<inter> dom sups = {} then (Inr (ups ++ sups), st2)
            else (Inl MergeCollision, st2))"
    using assms by (simp add: training_updates_def safe_update_def)
  moreover have "dom (ups ++ sups) = dom ups \<union> dom sups" by auto
  moreover have "\<forall>k \<in> dom sups. (ups ++ sups) k = sups k"
    by (auto simp: map_add_def split: option.splits)
  moreover have "dom ups \<inter> dom sups = {} \<longrightarrow> (\<forall>k \<in> dom ups. (ups ++ sups) k = ups k)"
    by (auto simp: map_add_def split: option.splits)
  ultimately show ?thesis by blast
qed

text \<open>
  The example sampler with one step: an optimizer that updates the particles collides with
  the sampler, an optimizer that updates the visible bias does not, and the merged set
  then has the three keys.
\<close>

theorem training_updates_safe_merge_witness:
  "fst (training_updates (Variable ''v'') (RBM example_rbm)
          (PersistentCDSampler (example_sampler 1 None))
          (\<lambda>grads st. (Inr [example_particles \<mapsto> Constant 0], st)) example_state)
     = Inl MergeCollision
   \<and> (\<exists>res. fst (training_updates (Variable ''v'') (RBM example_rbm)
                  (PersistentCDSampler (example_sampler 1 None))
                  (\<lambda>grads st. (Inr [visbias example_rbm \<mapsto> Constant 0], st)) example_state)
               = Inr res
           \<and> dom res = {visbias example_rbm, example_particles,
                         SharedVariable 6 ''h_sample'' (zeros [0, 0])}
           \<and> res (visbias example_rbm) = Some (Constant 0)
           \<and> res (SharedVariable 6 ''h_sample'' (zeros [0, 0])) =
               Some (mean_h_given_v (RBM example_rbm) (Shared example_particles)))"
proof -
  let ?s = "PersistentCDSampler (example_sampler 1 None)"
  let ?o1 = "\<lambda>(grads :: expr list) (st :: pystate).
               (Inr [example_particles \<mapsto> Constant 0] :: error + (shared \<rightharpoonup> expr), st)"
  let ?o2 = "\<lambda>(grads :: expr list) (st :: pystate).
               (Inr [visbias example_rbm \<mapsto> Constant 0] :: error + (shared \<rightharpoonup> expr), st)"
  obtain sups st2 where u: "sampler_updates ?s example_state = (Inr sups, st2)"
      and sups: "sups = [example_particles \<mapsto>
             clipped (example_sampler 1 None)
               (Cast (LT (Uniform 4 1 [10, 2])
                  (Sigmoid (Add (Shared (visbias example_rbm))
                     (Dot (Cast (LT (Uniform 4 0 [10, 1])
                                    (mean_h_given_v (RBM example_rbm) (Shared example_particles)))
                                floatX)
                          (Transpose (Shared (weights example_rbm))))))) floatX),
           SharedVariable 6 ''h_sample'' (zeros [0, 0]) \<mapsto>
             mean_h_given_v (RBM example_rbm) (Shared example_particles)]"
    using example_updates [of None] by simp
  have c: "fst (training_updates (Variable ''v'') (RBM example_rbm) ?s ?o1 example_state)
             = Inl MergeCollision"
    using training_updates_safe_merge [of ?o1 "RBM example_rbm" "Variable ''v''" ?s example_state
        "[example_particles \<mapsto> Constant 0]" example_state sups st2] u
    by (simp add: sups)
  have d: "fst (training_updates (Variable ''v'') (RBM example_rbm) ?s ?o2 example_state)
             = Inr ([visbias example_rbm \<mapsto> Constant 0] ++ sups)"
    using training_updates_safe_merge [of ?o2 "RBM example_rbm" "Variable ''v''" ?s example_state
        "[visbias example_rbm \<mapsto> Constant 0]" example_state sups st2] u
    by (simp add: sups example_rbm_def example_particles_def)
  show ?thesis
    using c d by (auto simp: sups example_rbm_def example_particles_def)
qed

subsection \<open>The Gibbs step\<close>

text \<open>
  C3. For every visible configuration \<open>v\<close>, random stream and state, the Gibbs step of
  the binary-binary RBM returns, and in what it returns: \<open>h_mean\<close> is
  \<open>mean_h_given_v v\<close>; \<open>h_sample\<close> is the comparison, cast to the float type, of one
  new uniform draw of shape (batch size, number of hidden units) with \<open>h_mean\<close>, so that
  each of its entries is 0 or 1; \<open>v_mean\<close> is \<open>mean_v_given_h\<close> of \<open>h_sample\<close> and
  not of \<open>h_mean\<close>; and the visible sample compares a second, later draw with \<open>v_mean\<close>.
\<close>

theorem RBM_gibbs_step_for_v_propagates_sample:
  "case gibbs_step_for_v (RBM self) v rng st of
     (Inl e, st') \<Rightarrow> False
   | (Inr (vs, l), st') \<Rightarrow>
       h_mean l = mean_h_given_v (RBM self) v
     \<and> h_sample l =
         Cast (LT (Uniform rng (draws st rng) [batch_size self, nhid self]) (h_mean l)) floatX
     \<and> (\<forall>env idx. snd (eval env (h_sample l)) idx = 0 \<or> snd (eval env (h_sample l)) idx = 1)
     \<and> mean_v_given_h (RBM self) (h_sample l) = Inr (v_mean l)
     \<and> mean_v_given_h (RBM self) (h_mean l) \<noteq> Inr (v_mean l)
     \<and> vs = Cast (LT (Uniform rng (Suc (draws st rng)) [batch_size self, nvis self]) (v_mean l))
               floatX
     \<and> draws st' rng = Suc (Suc (draws st rng))"
  by (simp add: RBM_gibbs_step_for_v_def uniform_def Let_def RBM_sample_visibles_def
        mean_h_given_v_def RBM_mean_v_given_h_def Block_obj.truncate_def RBM_input_to_h_from_v_def
        elemwise2_def)

text \<open>
  A Gibbs step of any of the three models returns; it draws from the stream and changes
  nothing else of the state.
\<close>

lemma gibbs_step_for_v_returns:
  "\<exists>vs l st'. gibbs_step_for_v m v rng st = (Inr (vs, l), st')
      \<and> h_mean l = mean_h_given_v m v
      \<and> h_sample l = Cast (LT (Uniform rng (draws st rng) [batch_size (attrs m), nhid (attrs m)])
                              (mean_h_given_v m v)) floatX
      \<and> next_id st' = next_id st \<and> h_sample_attr st' = h_sample_attr st"
proof (cases m)
  case (RBM self)
  then show ?thesis
    by (simp add: RBM_gibbs_step_for_v_def uniform_def Let_def RBM_sample_visibles_def)
next
  case (GaussianBinaryRBM self)
  then show ?thesis
    by (simp add: RBM_gibbs_step_for_v_def uniform_def normal_def Let_def
          GaussianBinaryRBM_sample_visibles_def)
next
  case (mu_pooled_ssRBM self)
  then show ?thesis
    by (simp add: mu_pooled_ssRBM_gibbs_step_for_v_def uniform_def normal_def Let_def
          Block_obj.truncate_def split: prod.splits)
qed

subsection \<open>The persistent sampler\<close>

lemma gibbs_loop_Suc:
  assumes "gibbs_step_for_v (rbm self) ps (s_rng self) st = (Inr (vs, l), st1)"
  shows "gibbs_loop self (Suc n) ps ls st = gibbs_loop self n (clipped self vs) (Some l) st1"
  using assms by (simp add: clipped_def)

text \<open>
  One more iteration is one more Gibbs step on what the iterations before it have made of
  the particles.
\<close>

lemma gibbs_loop_snoc:
  "gibbs_loop self (Suc n) ps ls st =
     (case gibbs_loop self n ps ls st of
        (Inl e, st1) \<Rightarrow> (Inl e, st1)
      | (Inr (ps1, ls1), st1) \<Rightarrow>
          (case gibbs_step_for_v (rbm self) ps1 (s_rng self) st1 of
             (Inl e, st2) \<Rightarrow> (Inl e, st2)
           | (Inr (v, l), st2) \<Rightarrow> (Inr (clipped self v, Some l), st2)))"
proof (induction n arbitrary: ps ls st)
  case 0
  obtain vs l st1 where s: "gibbs_step_for_v (rbm self) ps (s_rng self) st = (Inr (vs, l), st1)"
    using gibbs_step_for_v_returns [of "rbm self" ps "s_rng self" st] by blast
  show ?case using s by (simp add: clipped_def)
next
  case (Suc n)
  obtain vs l st1 where s: "gibbs_step_for_v (rbm self) ps (s_rng self) st = (Inr (vs, l), st1)"
    using gibbs_step_for_v_returns [of "rbm self" ps "s_rng self" st] by blast
  have "gibbs_loop self (Suc (Suc n)) ps ls st =
          gibbs_loop self (Suc n) (clipped self vs) (Some l) st1"
    by (rule gibbs_loop_Suc [OF s])
  also have "\<dots> = (case gibbs_loop self n (clipped self vs) (Some l) st1 of
        (Inl e, st1) \<Rightarrow> (Inl e, st1)
      | (Inr (ps1, ls1), st1) \<Rightarrow>
          (case gibbs_step_for_v (rbm self) ps1 (s_rng self) st1 of
             (Inl e, st2) \<Rightarrow> (Inl e, st2)
           | (Inr (v, l), st2) \<Rightarrow> (Inr (clipped self v, Some l), st2)))"
    by (rule Suc.IH)
  also have "gibbs_loop self n (clipped self vs) (Some l) st1 = gibbs_loop self (Suc n) ps ls st"
    by (rule gibbs_loop_Suc [OF s, symmetric])
  finally show ?case .
qed

lemma gibbs_loop_returns:
  "\<exists>ps' ls' st'. gibbs_loop self n ps ls st = (Inr (ps', ls'), st')
      \<and> next_id st' = next_id st \<and> h_sample_attr st' = h_sample_attr st
      \<and> (n = 0 \<longrightarrow> ps' = ps \<and> ls' = ls \<and> st' = st)
      \<and> (0 < n \<longrightarrow> (\<exists>v l. ps' = clipped self v \<and> ls' = Some l))"
proof (induction n arbitrary: ps ls st)
  case 0
  show ?case by simp
next
  case (Suc n)
  obtain vs l st1 where s: "gibbs_step_for_v (rbm self) ps (s_rng self) st = (Inr (vs, l), st1)"
     "next_id st1 = next_id st" "h_sample_attr st1 = h_sample_attr st"
    using gibbs_step_for_v_returns [of "rbm self" ps "s_rng self" st] by blast
  obtain ps' ls' st' where l:
     "gibbs_loop self n (clipped self vs) (Some l) st1 = (Inr (ps', ls'), st')"
     "next_id st' = next_id st1" "h_sample_attr st' = h_sample_attr st1"
     "n = 0 \<longrightarrow> ps' = clipped self vs \<and> ls' = Some l \<and> st' = st1"
     "0 < n \<longrightarrow> (\<exists>v l. ps' = clipped self v \<and> ls' = Some l)"
    using Suc.IH [of "clipped self vs" "Some l" st1] by blast
  have "gibbs_loop self (Suc n) ps ls st = (Inr (ps', ls'), st')"
    using s(1) l(1) by (simp add: clipped_def)
  moreover have "\<exists>v l. ps' = clipped self v \<and> ls' = Some l"
    using l(4,5) by (cases n) auto
  ultimately show ?case using s l by auto
qed

lemma updates_after_loop:
  assumes "gibbs_loop self (nat (steps self)) (Shared (particles self)) None st =
             (Inr (ps, ls), st1)"
  shows "PersistentCDSampler_updates self c st =
     (case ls of
        None \<Rightarrow> Inl (UnboundLocalError ''_locals'')
      | Some l \<Rightarrow>
          Inr [particles self \<mapsto> ps,
               fst (attach_h_sample (oid (attrs (rbm self))) st1) \<mapsto> h_mean l],
      snd (attach_h_sample (oid (attrs (rbm self))) st1))"
  using assms
  by (simp add: PersistentCDSampler_updates_def attach_h_sample_def sharedX_def Let_def
        split: option.splits)

lemma attach_h_sample_apart:
  assumes "ident p < next_id st" "h_sample_attr st i \<noteq> Some p"
  shows "fst (attach_h_sample i st) \<noteq> p"
    and "h_sample_attr (snd (attach_h_sample i st)) i = Some (fst (attach_h_sample i st))"
    and "ident p < next_id (snd (attach_h_sample i st))"
  using assms by (auto simp: attach_h_sample_def split: option.splits)

text \<open>
  A sampler constructed on a model whose attribute \<^verbatim>\<open>h_sample\<close>, when set, is an
  existing object, is well-formed in the state the constructor leaves.
\<close>

lemma PersistentCDSampler_init_wf:
  assumes "h_sample_attr st (oid (attrs m)) = None
           \<or> (\<exists>hs. h_sample_attr st (oid (attrs m)) = Some hs \<and> ident hs < next_id st)"
  shows "wf_sampler (fst (PersistentCDSampler_init m p rng k clip st))
           (snd (PersistentCDSampler_init m p rng k clip st))"
  using assms
  by (auto simp: wf_sampler_def PersistentCDSampler_init_def Sampler_init_def RandomStreams_def
        sharedX_def Sampler_obj.extend_def PersistentCDSampler_obj.fields_def)

text \<open>
  The clip of a number between two numbers \<open>lo \<le> hi\<close> is the clamped number, of an
  infinity the bound on its side, and of NaN it is NaN.
\<close>

lemma sigmoid_pos: "0 < sigmoid x"
  by (simp add: sigmoid_def add_pos_pos)

lemma sigmoid_0: "sigmoid 0 = 1 / 2"
  by (simp add: sigmoid_def)

lemma clip_impl_clamped:
  assumes "lo \<le> hi"
  shows "clip_impl x (Float lo) (Float hi) = clamped x lo hi"
  using assms by (cases x) (auto simp: clip_impl_def clamped_def)

lemma clamped_in_range:
  assumes "lo \<le> hi"
  shows "(clamped x lo hi = NaN) = (x = NaN)"
    and "clamped x lo hi \<noteq> NaN \<Longrightarrow> in_range (clamped x lo hi) lo hi"
  using assms by (cases x; auto simp: clamped_def in_range_def)+

lemma feval_clip:
  assumes "lo \<le> hi"
  shows "snd (feval env (Clip v (Constant lo) (Constant hi))) idx =
           clamped (fentry_at (feval env v) idx) lo hi"
  using clip_impl_clamped [OF assms] by (simp add: Let_def fentry_at_def)

lemmas feval_defs = felemwise1_def felemwise2_def fdot_def fl_sum_def fentry_at_def
  broadcast_shape_def broadcast_index_def axis_length_def bdim_def Let_def

text \<open>The entries that \<^verbatim>\<open>updates\<close> gives to the particles of the example samplers.\<close>

lemmas chain_defs = PersistentCDSampler_updates_def example_sampler_def example_state_def
  example_rbm_def example_particles_def RBM_gibbs_step_for_v_def uniform_def
  RBM_sample_visibles_def RBM_mean_v_given_h_def mean_h_given_v_def RBM_input_to_h_from_v_def
  Block_obj.truncate_def sharedX_def feval_defs chain_env_def ndarray_shape_def clip_impl_def
  fl_sigmoid_def sigmoid_pos sigmoid_0 upt_rec

lemma chain_entry:
  "particles_update_entry (example_sampler 2 (Some (1 / 4, 3 / 4))) example_state chain_env [0, 0]
     = Some (Float (3 / 4))"
  by (simp add: particles_update_entry_def chain_defs numeral_2_eq_2)

lemma chain_h_mean:
  "h_sample_update_entry (example_sampler 2 (Some (1 / 4, 3 / 4))) example_state chain_env [0, 0]
     = Some (Float (sigmoid 3))"
  "h_sample_update_entry (example_sampler 2 (Some (1 / 4, 3 / 4))) example_state chain_env [1, 0]
     = Some (Float (sigmoid 1))"
  by (simp_all add: h_sample_update_entry_def chain_defs numeral_2_eq_2)

lemma inverted_range_entry:
  "particles_update_entry (example_sampler 1 (Some (1, 0))) example_state chain_env [0, 0]
     = Some (Float 0)"
  by (simp add: particles_update_entry_def chain_defs)

lemma pooled_nan:
  "particles_update_entry pooled_sampler pooled_state nan_env [0, 0] = Some NaN"
  by (simp add: particles_update_entry_def PersistentCDSampler_updates_def pooled_sampler_def pooled_state_def
      mu_pooled_ssRBM_gibbs_step_for_v_def uniform_def normal_def sharedX_def
      mean_var_s_given_v_h1_def mean_var_v_given_h_s_def example_ssrbm_def Block_obj.truncate_def
      feval_defs nan_env_def ndarray_shape_def clip_impl_def fl_sqrt_def mean_h_given_v_def
      mu_pooled_ssRBM_input_to_h_from_v_def sum_s_def fl_sigmoid_def
      split: prod.splits)

lemma pooled_wf: "wf_sampler pooled_sampler pooled_state"
  by (simp add: wf_sampler_def pooled_sampler_def pooled_state_def)

text \<open>
  C4. For every persistent sampler with \<open>steps \<ge> 1\<close> and a clip range \<open>(lo, hi)\<close>
  with \<open>lo \<le> hi\<close>, in a state where it is well-formed: the loop of \<^verbatim>\<open>updates\<close>
  starts from the particles variable; after \<open>j + 1\<close> iterations it holds the sample of
  one Gibbs step, clipped to the range, and that Gibbs step started from what the loop
  held after \<open>j\<close> iterations; \<^verbatim>\<open>updates\<close> returns an update set that maps the
  particles to what the loop holds after \<open>steps\<close> iterations, the clipped sample \<open>v\<close>
  of the last step. Every entry of its floating-point value is the entry of \<open>v\<close>
  clamped into the range: \<open>lo\<close> when the entry is below \<open>lo\<close>, \<open>hi\<close> when it is above
  \<open>hi\<close>, the entry itself in between. An entry is NaN exactly when the entry of \<open>v\<close>
  is NaN, and every entry that is not NaN lies between \<open>lo\<close> and \<open>hi\<close>.
\<close>

theorem PersistentCDSampler_updates_clipped:
  assumes "0 < steps self" and "particles_clip self = Some (lo, hi)" and "lo \<le> hi"
      and "wf_sampler self st"
  shows "gibbs_loop self 0 (Shared (particles self)) None st =
           (Inr (Shared (particles self), None), st)
       \<and> (\<forall>j. \<exists>ps1 ls1 st1 v l st2.
            gibbs_loop self j (Shared (particles self)) None st = (Inr (ps1, ls1), st1)
          \<and> gibbs_step_for_v (rbm self) ps1 (s_rng self) st1 = (Inr (v, l), st2)
          \<and> gibbs_loop self (Suc j) (Shared (particles self)) None st =
              (Inr (Clip v (Constant lo) (Constant hi), Some l), st2))
       \<and> (\<exists>ups st' v l st1.
            PersistentCDSampler_updates self c st = (Inr ups, st')
          \<and> gibbs_loop self (nat (steps self)) (Shared (particles self)) None st =
              (Inr (Clip v (Constant lo) (Constant hi), Some l), st1)
          \<and> ups (particles self) = Some (Clip v (Constant lo) (Constant hi))
          \<and> (\<forall>env idx.
                snd (feval env (Clip v (Constant lo) (Constant hi))) idx =
                  clamped (fentry_at (feval env v) idx) lo hi
              \<and> (snd (feval env (Clip v (Constant lo) (Constant hi))) idx = NaN) =
                  (fentry_at (feval env v) idx = NaN)
              \<and> (snd (feval env (Clip v (Constant lo) (Constant hi))) idx \<noteq> NaN \<longrightarrow>
                  in_range (snd (feval env (Clip v (Constant lo) (Constant hi))) idx) lo hi)))"
proof (intro conjI)
  show "gibbs_loop self 0 (Shared (particles self)) None st =
           (Inr (Shared (particles self), None), st)"
    by simp
next
  show "\<forall>j. \<exists>ps1 ls1 st1 v l st2.
            gibbs_loop self j (Shared (particles self)) None st = (Inr (ps1, ls1), st1)
          \<and> gibbs_step_for_v (rbm self) ps1 (s_rng self) st1 = (Inr (v, l), st2)
          \<and> gibbs_loop self (Suc j) (Shared (particles self)) None st =
              (Inr (Clip v (Constant lo) (Constant hi), Some l), st2)"
  proof
    fix j
    obtain ps1 ls1 st1 where
      a: "gibbs_loop self j (Shared (particles self)) None st = (Inr (ps1, ls1), st1)"
      using gibbs_loop_returns [of self j "Shared (particles self)" None st] by blast
    obtain v l st2 where
      b: "gibbs_step_for_v (rbm self) ps1 (s_rng self) st1 = (Inr (v, l), st2)"
      using gibbs_step_for_v_returns [of "rbm self" ps1 "s_rng self" st1] by blast
    have "gibbs_loop self (Suc j) (Shared (particles self)) None st =
              (Inr (Clip v (Constant lo) (Constant hi), Some l), st2)"
      using a b assms(2) by (simp only: gibbs_loop_snoc) (simp add: clipped_def)
    with a b show "\<exists>ps1 ls1 st1 v l st2.
            gibbs_loop self j (Shared (particles self)) None st = (Inr (ps1, ls1), st1)
          \<and> gibbs_step_for_v (rbm self) ps1 (s_rng self) st1 = (Inr (v, l), st2)
          \<and> gibbs_loop self (Suc j) (Shared (particles self)) None st =
              (Inr (Clip v (Constant lo) (Constant hi), Some l), st2)"
      by blast
  qed
next
  let ?i = "oid (attrs (rbm self))"
  obtain ps ls st1 where
        a: "gibbs_loop self (nat (steps self)) (Shared (particles self)) None st =
              (Inr (ps, ls), st1)"
      and n: "next_id st1 = next_id st" and h: "h_sample_attr st1 = h_sample_attr st"
      and c: "0 < nat (steps self) \<longrightarrow> (\<exists>v l. ps = clipped self v \<and> ls = Some l)"
    using gibbs_loop_returns [of self "nat (steps self)" "Shared (particles self)" None st]
    by (elim exE conjE) (rule that)
  obtain v l where ps: "ps = Clip v (Constant lo) (Constant hi)" and ls: "ls = Some l"
    using c assms(1,2) by (auto simp: clipped_def)
  have apart: "fst (attach_h_sample ?i st1) \<noteq> particles self"
    using attach_h_sample_apart(1) [of "particles self" st1 ?i] assms(4) n h
    by (simp add: wf_sampler_def)
  have u: "PersistentCDSampler_updates self c st =
      (Inr [particles self \<mapsto> ps, fst (attach_h_sample ?i st1) \<mapsto> h_mean l],
       snd (attach_h_sample ?i st1))"
    using updates_after_loop [OF a, of c] ls by simp
  have k: "[particles self \<mapsto> ps, fst (attach_h_sample ?i st1) \<mapsto> h_mean l] (particles self)
          = Some (Clip v (Constant lo) (Constant hi))"
    using apart by (simp add: ps)
  have e: "\<forall>env idx.
                snd (feval env (Clip v (Constant lo) (Constant hi))) idx =
                  clamped (fentry_at (feval env v) idx) lo hi
              \<and> (snd (feval env (Clip v (Constant lo) (Constant hi))) idx = NaN) =
                  (fentry_at (feval env v) idx = NaN)
              \<and> (snd (feval env (Clip v (Constant lo) (Constant hi))) idx \<noteq> NaN \<longrightarrow>
                  in_range (snd (feval env (Clip v (Constant lo) (Constant hi))) idx) lo hi)"
    using clamped_in_range [OF assms(3)] by (simp only: feval_clip [OF assms(3)]) blast
  show "\<exists>ups st' v l st1.
            PersistentCDSampler_updates self c st = (Inr ups, st')
          \<and> gibbs_loop self (nat (steps self)) (Shared (particles self)) None st =
              (Inr (Clip v (Constant lo) (Constant hi), Some l), st1)
          \<and> ups (particles self) = Some (Clip v (Constant lo) (Constant hi))
          \<and> (\<forall>env idx.
                snd (feval env (Clip v (Constant lo) (Constant hi))) idx =
                  clamped (fentry_at (feval env v) idx) lo hi
              \<and> (snd (feval env (Clip v (Constant lo) (Constant hi))) idx = NaN) =
                  (fentry_at (feval env v) idx = NaN)
              \<and> (snd (feval env (Clip v (Constant lo) (Constant hi))) idx \<noteq> NaN \<longrightarrow>
                  in_range (snd (feval env (Clip v (Constant lo) (Constant hi))) idx) lo hi))"
    using u a [unfolded ps ls] k e by blast
qed

text \<open>
  The example sampler with two steps and the range \<open>(1/4, 3/4)\<close>, the particles and the
  biases 0 and the weights 2. In row 0 the first visible sample is 1 and is clamped to
  \<open>3/4\<close>; in row 1 it is 0 and is clamped to \<open>1/4\<close>. The second step starts from the
  clamped samples: its mean of the hidden unit is \<open>sigmoid (2 * 3/4 + 2 * 3/4)\<close> in row 0
  and \<open>sigmoid (2 * 1/4 + 2 * 1/4)\<close> in row 1. The second visible sample of row 0 is 1
  again, and the particles get \<open>3/4\<close>.
\<close>

theorem PersistentCDSampler_updates_clipped_witness:
  "0 < steps (example_sampler 2 (Some (1 / 4, 3 / 4)))
   \<and> particles_clip (example_sampler 2 (Some (1 / 4, 3 / 4))) = Some (1 / 4, 3 / 4)
   \<and> (1 / 4 :: real) \<le> 3 / 4
   \<and> wf_sampler (example_sampler 2 (Some (1 / 4, 3 / 4))) example_state
   \<and> (\<exists>x. particles_update_entry (example_sampler 2 (Some (1 / 4, 3 / 4))) example_state
              chain_env [0, 0] = Some x
          \<and> x = Float (3 / 4) \<and> in_range x (1 / 4) (3 / 4))
   \<and> h_sample_update_entry (example_sampler 2 (Some (1 / 4, 3 / 4))) example_state
        chain_env [0, 0] = Some (Float (sigmoid 3))
   \<and> h_sample_update_entry (example_sampler 2 (Some (1 / 4, 3 / 4))) example_state
        chain_env [1, 0] = Some (Float (sigmoid 1))"
proof -
  let ?s = "example_sampler 2 (Some (1 / 4, 3 / 4))"
  have h1: "0 < steps ?s" by (simp add: example_sampler_def)
  have h2: "particles_clip ?s = Some (1 / 4, 3 / 4)" by (simp add: example_sampler_def)
  have h3: "(1 / 4 :: real) \<le> 3 / 4" by simp
  have h4: "wf_sampler ?s example_state" by (rule example_wf)
  from PersistentCDSampler_updates_clipped [OF h1 h2 h3 h4, of None]
  obtain ups st' v where
       u: "PersistentCDSampler_updates ?s None example_state = (Inr ups, st')"
   and k: "ups (particles ?s) = Some (Clip v (Constant (1 / 4)) (Constant (3 / 4)))"
   and r: "\<forall>env idx.
             snd (feval env (Clip v (Constant (1 / 4)) (Constant (3 / 4)))) idx \<noteq> NaN \<longrightarrow>
             in_range (snd (feval env (Clip v (Constant (1 / 4)) (Constant (3 / 4)))) idx)
               (1 / 4) (3 / 4)"
    by blast
  have "particles_update_entry ?s example_state chain_env [0, 0] =
          Some (snd (feval chain_env (Clip v (Constant (1 / 4)) (Constant (3 / 4)))) [0, 0])"
    using u k by (simp only: particles_update_entry_def split: prod.splits) simp
  then have v: "snd (feval chain_env (Clip v (Constant (1 / 4)) (Constant (3 / 4)))) [0, 0] =
          Float (3 / 4)"
    by (simp only: chain_entry option.inject)
  have "in_range (Float (3 / 4)) (1 / 4) (3 / 4)"
    using r [rule_format, of chain_env "[0, 0]"] by (simp only: v) simp
  then have "\<exists>x. particles_update_entry ?s example_state chain_env [0, 0] = Some x
          \<and> x = Float (3 / 4) \<and> in_range x (1 / 4) (3 / 4)"
    using chain_entry by blast
  with h1 h2 h3 h4 chain_h_mean show ?thesis by blast
qed

text \<open>
  Without \<open>lo \<le> hi\<close>, and where the sample has a NaN, an entry of the update of the
  particles is outside the range. The example sampler with one step and the range
  \<open>(1, 0)\<close> returns the entry 0: the sample 1 is not below 1 and is above 0. The sampler
  on the pooled model whose precision \<^verbatim>\<open>B\<close> is \<open>-1\<close> returns the entry NaN: the
  variance \<open>1 / (B + h Lambda\<^sup>T)\<close> is \<open>-1\<close>, its square root is NaN and so is the
  visible sample, which is neither below 0 nor above 1.
\<close>

theorem PersistentCDSampler_updates_clipped_counterexample:
  "0 < steps (example_sampler 1 (Some (1, 0)))
   \<and> particles_clip (example_sampler 1 (Some (1, 0))) = Some (1, 0)
   \<and> wf_sampler (example_sampler 1 (Some (1, 0))) example_state
   \<and> particles_update_entry (example_sampler 1 (Some (1, 0))) example_state chain_env [0, 0]
       = Some (Float 0)
   \<and> \<not> in_range (Float 0) 1 0
   \<and> 0 < steps pooled_sampler
   \<and> particles_clip pooled_sampler = Some (0, 1)
   \<and> wf_sampler pooled_sampler pooled_state
   \<and> particles_update_entry pooled_sampler pooled_state nan_env [0, 0] = Some NaN
   \<and> \<not> in_range NaN 0 1"
  using inverted_range_entry pooled_nan pooled_wf example_wf [of 1 "Some (1, 0)"]
  by (simp add: in_range_def example_sampler_def pooled_sampler_def)

text \<open>
  C5. The constructor of the persistent sampler stores any number of steps and raises
  nothing; for every sampler with \<open>steps \<le> 0\<close>, in every state, \<^verbatim>\<open>updates\<close> raises: the
  loop binds \<^verbatim>\<open>_locals\<close> in no iteration, and reading it raises
  \<^verbatim>\<open>UnboundLocalError\<close>. So a sampler configured with zero or negative steps fails at
  its first call of \<^verbatim>\<open>updates\<close>, and at every later one.
\<close>

theorem PersistentCDSampler_no_steps_raises:
  assumes "steps self \<le> 0"
  shows "fst (PersistentCDSampler_updates self c st) = Inl (UnboundLocalError ''_locals'')
       \<and> steps (fst (PersistentCDSampler_init m p rng (steps self) clip st0)) = steps self"
  using assms
  by (simp add: PersistentCDSampler_updates_def Let_def PersistentCDSampler_init_def
        Sampler_init_def RandomStreams_def sharedX_def Sampler_obj.extend_def
        PersistentCDSampler_obj.fields_def split: option.splits prod.splits)

text \<open>The example sampler constructed with zero steps, at its first call of \<^verbatim>\<open>updates\<close>.\<close>

theorem PersistentCDSampler_no_steps_raises_witness:
  "steps (example_sampler 0 None) \<le> 0
   \<and> PersistentCDSampler_init (RBM example_rbm) (array [10, 2]) PyNone 0 None
        (example_state0\<lparr>next_id := 4\<rparr>) = (example_sampler 0 None, example_state)
   \<and> fst (PersistentCDSampler_updates (example_sampler 0 None) None example_state) =
        Inl (UnboundLocalError ''_locals'')"
proof -
  have h: "steps (example_sampler 0 None) \<le> 0" by (simp add: example_sampler_def)
  show ?thesis
    using h PersistentCDSampler_no_steps_raises [OF h, of None example_state]
      example_constructed [of 0 None]
    by simp
qed

text \<open>
  C10. For every persistent sampler in a state where it is well-formed, with \<open>i\<close> the
  identity of its model and \<open>st'\<close> the state after \<^verbatim>\<open>updates\<close>: if the model has no
  attribute \<^verbatim>\<open>h_sample\<close>, the call attaches one, a new shared variable named
  \<^verbatim>\<open>h_sample\<close> that holds the zero matrix of shape \<open>(0, 0)\<close>, and changes no attribute of
  another object; if \<open>steps \<ge> 1\<close>, the call returns an update set whose keys are exactly
  the particles and the model's \<^verbatim>\<open>h_sample\<close>, two different variables, and which maps
  \<^verbatim>\<open>h_sample\<close> to \<open>h_mean\<close> of the last Gibbs step, that is \<open>mean_h_given_v\<close> of the
  input of that step, and not to the hidden sample of that step; and the sampler is
  well-formed in \<open>st'\<close>, so that the same holds at every later call.
\<close>

theorem PersistentCDSampler_updates_h_sample:
  assumes "wf_sampler self st"
  shows "(let i = oid (attrs (rbm self));
              st' = snd (PersistentCDSampler_updates self c st);
              new = SharedVariable (next_id st) ''h_sample'' (zeros [0, 0])
          in (h_sample_attr st i = None \<longrightarrow>
                h_sample_attr st' = (h_sample_attr st)(i := Some new)
                \<and> next_id st' = Suc (next_id st))
           \<and> (0 < steps self \<longrightarrow>
                (\<exists>ups hs ps1 ls1 st1 v l st2.
                    fst (PersistentCDSampler_updates self c st) = Inr ups
                  \<and> h_sample_attr st' i = Some hs
                  \<and> hs \<noteq> particles self
                  \<and> dom ups = {particles self, hs}
                  \<and> gibbs_loop self (nat (steps self - 1)) (Shared (particles self)) None st =
                      (Inr (ps1, ls1), st1)
                  \<and> gibbs_step_for_v (rbm self) ps1 (s_rng self) st1 = (Inr (v, l), st2)
                  \<and> ups hs = Some (h_mean l)
                  \<and> h_mean l = mean_h_given_v (rbm self) ps1
                  \<and> h_mean l \<noteq> h_sample l))
           \<and> wf_sampler self st')"
proof -
  let ?i = "oid (attrs (rbm self))"
  let ?P = "Shared (particles self)"
  obtain ps ls st1 where a: "gibbs_loop self (nat (steps self)) ?P None st = (Inr (ps, ls), st1)"
      and n: "next_id st1 = next_id st" and h: "h_sample_attr st1 = h_sample_attr st"
    using gibbs_loop_returns [of self "nat (steps self)" ?P None st]
    by (elim exE conjE) (rule that)
  let ?hs = "fst (attach_h_sample ?i st1)"
  let ?st' = "snd (attach_h_sample ?i st1)"
  have u: "PersistentCDSampler_updates self c st =
     (case ls of
        None \<Rightarrow> Inl (UnboundLocalError ''_locals'')
      | Some l \<Rightarrow> Inr [particles self \<mapsto> ps, ?hs \<mapsto> h_mean l], ?st')"
    by (rule updates_after_loop [OF a])
  have wf1: "ident (particles self) < next_id st1"
     "h_sample_attr st1 ?i \<noteq> Some (particles self)"
    using assms n h by (simp_all add: wf_sampler_def)
  have apart: "?hs \<noteq> particles self" and attached: "h_sample_attr ?st' ?i = Some ?hs"
      and alloc: "ident (particles self) < next_id ?st'"
    using attach_h_sample_apart [OF wf1] by simp_all
  have first: "h_sample_attr st ?i = None \<longrightarrow>
        h_sample_attr ?st' =
          (h_sample_attr st)(?i := Some (SharedVariable (next_id st) ''h_sample'' (zeros [0, 0])))
        \<and> next_id ?st' = Suc (next_id st)"
    using n h by (simp add: attach_h_sample_def)
  have every: "0 < steps self \<longrightarrow>
        (\<exists>ups hs ps1 ls1 st1 v l st2.
            fst (PersistentCDSampler_updates self c st) = Inr ups
          \<and> h_sample_attr ?st' ?i = Some hs
          \<and> hs \<noteq> particles self
          \<and> dom ups = {particles self, hs}
          \<and> gibbs_loop self (nat (steps self - 1)) ?P None st = (Inr (ps1, ls1), st1)
          \<and> gibbs_step_for_v (rbm self) ps1 (s_rng self) st1 = (Inr (v, l), st2)
          \<and> ups hs = Some (h_mean l)
          \<and> h_mean l = mean_h_given_v (rbm self) ps1
          \<and> h_mean l \<noteq> h_sample l)"
  proof
    assume pos: "0 < steps self"
    then have k: "nat (steps self) = Suc (nat (steps self - 1))" by simp
    obtain ps1 ls1 sta where
      b: "gibbs_loop self (nat (steps self - 1)) ?P None st = (Inr (ps1, ls1), sta)"
      using gibbs_loop_returns [of self "nat (steps self - 1)" ?P None st] by blast
    obtain v l stb where
          g: "gibbs_step_for_v (rbm self) ps1 (s_rng self) sta = (Inr (v, l), stb)"
      and hm: "h_mean l = mean_h_given_v (rbm self) ps1"
      and hs: "h_sample l = Cast (LT (Uniform (s_rng self) (draws sta (s_rng self))
                     [batch_size (attrs (rbm self)), nhid (attrs (rbm self))])
                   (mean_h_given_v (rbm self) ps1)) floatX"
      using gibbs_step_for_v_returns [of "rbm self" ps1 "s_rng self" sta]
      by (elim exE conjE) (rule that)
    have "gibbs_loop self (nat (steps self)) ?P None st = (Inr (clipped self v, Some l), stb)"
      using b g by (simp only: k gibbs_loop_snoc) simp
    with a have ls: "ls = Some l" by simp
    have "fst (PersistentCDSampler_updates self c st) =
            Inr [particles self \<mapsto> ps, ?hs \<mapsto> h_mean l]"
      using u ls by simp
    moreover have "dom [particles self \<mapsto> ps, ?hs \<mapsto> h_mean l] = {particles self, ?hs}"
      by auto
    moreover have "[particles self \<mapsto> ps, ?hs \<mapsto> h_mean l] ?hs = Some (h_mean l)"
      by simp
    moreover have "h_mean l \<noteq> h_sample l"
      by (simp add: hm hs mean_h_given_v_def)
    ultimately show "\<exists>ups hs ps1 ls1 st1 v l st2.
            fst (PersistentCDSampler_updates self c st) = Inr ups
          \<and> h_sample_attr ?st' ?i = Some hs
          \<and> hs \<noteq> particles self
          \<and> dom ups = {particles self, hs}
          \<and> gibbs_loop self (nat (steps self - 1)) ?P None st = (Inr (ps1, ls1), st1)
          \<and> gibbs_step_for_v (rbm self) ps1 (s_rng self) st1 = (Inr (v, l), st2)
          \<and> ups hs = Some (h_mean l)
          \<and> h_mean l = mean_h_given_v (rbm self) ps1
          \<and> h_mean l \<noteq> h_sample l"
      using attached apart b g hm by blast
  qed
  have wf': "wf_sampler self ?st'"
    using attached apart alloc by (simp add: wf_sampler_def)
  have st': "snd (PersistentCDSampler_updates self c st) = ?st'"
    using u by simp
  show ?thesis
    unfolding Let_def st' using first every wf' by blast
qed

text \<open>
  The example sampler with one step, on the example model, which has no attribute
  \<^verbatim>\<open>h_sample\<close>: the first call attaches the new variable with identity 6 and returns
  the two keys; the hidden mean is that of the particles variable.
\<close>

theorem PersistentCDSampler_updates_h_sample_witness:
  "wf_sampler (example_sampler 1 None) example_state
   \<and> h_sample_attr example_state (oid (attrs (rbm (example_sampler 1 None)))) = None
   \<and> 0 < steps (example_sampler 1 None)
   \<and> h_sample_attr (snd (PersistentCDSampler_updates (example_sampler 1 None) None example_state))
       = (\<lambda>i. None)(0 := Some (SharedVariable 6 ''h_sample'' (zeros [0, 0])))
   \<and> (\<exists>ups. fst (PersistentCDSampler_updates (example_sampler 1 None) None example_state)
              = Inr ups
          \<and> dom ups = {example_particles, SharedVariable 6 ''h_sample'' (zeros [0, 0])}
          \<and> example_particles \<noteq> SharedVariable 6 ''h_sample'' (zeros [0, 0])
          \<and> ups (SharedVariable 6 ''h_sample'' (zeros [0, 0])) =
              Some (Sigmoid (Add (Shared (hidbias example_rbm))
                                 (Dot (Shared example_particles) (Shared (weights example_rbm))))))
   \<and> wf_sampler (example_sampler 1 None)
       (snd (PersistentCDSampler_updates (example_sampler 1 None) None example_state))"
proof -
  let ?s = "example_sampler 1 None"
  have h: "wf_sampler ?s example_state" by (rule example_wf)
  have n: "h_sample_attr example_state (oid (attrs (rbm ?s))) = None"
    by (simp add: example_state_def)
  have k: "0 < steps ?s" by (simp add: example_sampler_def)
  have i: "oid (attrs (rbm ?s)) = 0"
    by (simp add: example_sampler_def example_rbm_def Block_obj.truncate_def)
  have t: "h_sample_attr (snd (PersistentCDSampler_updates ?s None example_state))
             = (h_sample_attr example_state)
                 (0 := Some (SharedVariable (next_id example_state) ''h_sample'' (zeros [0, 0])))
           \<and> wf_sampler ?s (snd (PersistentCDSampler_updates ?s None example_state))"
    using PersistentCDSampler_updates_h_sample [OF h, of None] n
    by (simp add: Let_def i)
  have e: "\<exists>ups. fst (PersistentCDSampler_updates ?s None example_state) = Inr ups
          \<and> dom ups = {example_particles, SharedVariable 6 ''h_sample'' (zeros [0, 0])}
          \<and> example_particles \<noteq> SharedVariable 6 ''h_sample'' (zeros [0, 0])
          \<and> ups (SharedVariable 6 ''h_sample'' (zeros [0, 0])) =
              Some (Sigmoid (Add (Shared (hidbias example_rbm))
                                 (Dot (Shared example_particles) (Shared (weights example_rbm)))))"
    using example_updates [of None]
    by (auto simp: example_particles_def mean_h_given_v_def RBM_input_to_h_from_v_def)
  show ?thesis
    using h n k t e by (simp add: example_state_def)
qed

subsection \<open>The variants\<close>

text \<open>
  C6. For every hidden configuration \<open>h\<close> and every parameter list, shape, random stream
  and state, \<^verbatim>\<open>mean_v_given_h\<close> and \<^verbatim>\<open>sample_visibles\<close> of the pooled spike-and-slab
  model raise \<^verbatim>\<open>NotImplementedError\<close>, with a message that names the class and the
  method; they return no value and leave the state as it was.
\<close>

theorem mu_pooled_ssRBM_unsupported:
  "mean_v_given_h (mu_pooled_ssRBM self) h =
     Inl (NotImplementedError ''mu_pooled_ssRBM.mean_v_given_h'')
   \<and> sample_visibles (mu_pooled_ssRBM self) ps shape rng st =
     (Inl (NotImplementedError ''mu_pooled_ssRBM.sample_visibles''), st)"
  by (simp add: mu_pooled_ssRBM_mean_v_given_h_def mu_pooled_ssRBM_sample_visibles_def)

subsection \<open>Evaluation\<close>

lemma bdim_simps [simp]: "bdim d d = d" "bdim (Suc 0) e = e" "bdim d (Suc 0) = d"
  by (simp_all add: bdim_def)

lemma pow_impl_2 [simp]: "pow_impl x 2 = x * x"
  by (simp add: pow_impl_def power2_eq_square)

lemma in_range_index [simp]: "i < d \<Longrightarrow> (if d = Suc 0 then 0 else i) = i"
  by auto

lemmas eval_defs = elemwise1_def elemwise2_def dot_def sum_axis_def
  broadcast_shape_def broadcast_index_def entry_at_def axis_length_def Let_def

lemma example_env_simps:
  "example_env (Shared s) =
     (map nat (ndarray_shape (get_value s)),
      \<lambda>idx. case get_value s of zeros _ \<Rightarrow> 0 | ones _ \<Rightarrow> 1 | array _ \<Rightarrow> 2)"
  "example_env (Variable x) =
     ([3, 2], \<lambda>idx. case idx of [i, c] \<Rightarrow> 10 * real i + real c | _ \<Rightarrow> 0)"
  by (simp_all add: example_env_def)

lemma group_offset_less:
  fixes j k h n :: nat
  assumes "j < h" "k < n"
  shows "j * n + k < h * n"
proof -
  have "j * n + k < j * n + n" using assms(2) by simp
  also have "\<dots> = Suc j * n" by simp
  also have "\<dots> \<le> h * n" using assms(1) by (intro mult_le_mono1) simp
  finally show ?thesis .
qed

text \<open>
  Pooling: \<^verbatim>\<open>x.reshape((-1, nhid, n_s_per_h)).sum(axis=2)\<close> on an array of \<open>h n\<close>
  columns sums each group of \<open>n\<close> neighbouring columns.
\<close>

lemma sum_s_shape:
  assumes "nhid self = int h" "n_s_per_h self = int n" "0 < h" "0 < n"
      and "fst (eval env x) = [r, h * n]"
  shows "fst (eval env (sum_s self x)) = [r, h]"
  using assms by (simp add: sum_s_def sum_axis_def Let_def resolve_shape_def)

lemma sum_s_entry:
  assumes "nhid self = int h" "n_s_per_h self = int n" "0 < h" "0 < n"
      and "fst (eval env x) = [r, h * n]" "j < h"
  shows "snd (eval env (sum_s self x)) [i, j] = (\<Sum>k<n. snd (eval env x) [i, j * n + k])"
proof -
  have a: "(i * (h * n) + (j * n + k)) div (h * n) = i" if "k < n" for k
    using group_offset_less [OF \<open>j < h\<close> that] \<open>0 < h\<close> \<open>0 < n\<close> by simp
  have b: "(i * (h * n) + (j * n + k)) mod (h * n) = j * n + k" if "k < n" for k
    using group_offset_less [OF \<open>j < h\<close> that] \<open>0 < h\<close> \<open>0 < n\<close> by simp
  show ?thesis
    using assms a b
    by (simp add: sum_s_def sum_axis_def Let_def resolve_shape_def axis_length_def add.assoc
          mult.assoc)
qed

subsection \<open>The Gaussian-binary model\<close>

lemma GaussianBinaryRBM_input_value:
  assumes "fst (eval env v) = [n, nv]"
      and "fst (env (Shared (sigma self))) = [nv]"
      and "fst (env (Shared (weights self))) = [nv, nh]"
      and "fst (env (Shared (hidbias self))) = [nh]"
  shows "fst (eval env (input_to_h_from_v (GaussianBinaryRBM self) v)) = [n, nh]"
    and "i < n \<Longrightarrow> k < nh \<Longrightarrow>
         snd (eval env (input_to_h_from_v (GaussianBinaryRBM self) v)) [i, k] =
           snd (env (Shared (hidbias self))) [k]
           + (\<Sum>j<nv. snd (eval env v) [i, j] / snd (env (Shared (sigma self))) [j]
                        * snd (env (Shared (weights self))) [j, k])"
  using assms
  by (simp_all add: GaussianBinaryRBM_input_to_h_from_v_def eval_defs)

lemma GaussianBinaryRBM_free_energy_value:
  assumes "fst (eval env v) = [n, nv]"
      and "fst (env (Shared (sigma self))) = [nv]"
      and "fst (env (Shared (weights self))) = [nv, nh]"
      and "fst (env (Shared (hidbias self))) = [nh]"
      and "fst (env (Shared (visbias self))) = [nv]"
  shows "fst (eval env (free_energy_given_v (GaussianBinaryRBM self) v)) = [n]"
    and "i < n \<Longrightarrow>
         snd (eval env (free_energy_given_v (GaussianBinaryRBM self) v)) [i] =
           (\<Sum>j<nv. (snd (env (Shared (visbias self))) [j] - snd (eval env v) [i, j])\<^sup>2
                       / snd (env (Shared (sigma self))) [j])
           - (\<Sum>k<nh. softplus
                 (snd (eval env (input_to_h_from_v (GaussianBinaryRBM self) v)) [i, k]))"
  using assms
  by (simp_all add: GaussianBinaryRBM_free_energy_given_v_def
        GaussianBinaryRBM_input_to_h_from_v_def eval_defs power2_eq_square)

text \<open>
  C7. For every visible configuration \<open>v\<close>, the Gaussian-binary model builds the input
  to the hidden units as the hidden bias plus the product of \<open>v / sigma\<close> with the
  weights, the division coming before the product; and its free energy as the sum along
  axis 1 of \<open>(visbias - v)\<^sup>2 / sigma\<close> minus the sum along axis 1 of the softplus of
  that input. Evaluated on \<open>n\<close> examples of \<open>nv\<close> visible units, with parameters of the
  matching shapes: the input to hidden unit \<open>k\<close> for example \<open>i\<close> is
  \<open>hidbias k + (\<Sum>j. v i j / sigma j * W j k)\<close>, each visible unit divided by its own
  sigma, and the free energy of example \<open>i\<close> is
  \<open>(\<Sum>j. (visbias j - v i j)\<^sup>2 / sigma j) - (\<Sum>k. softplus (input i k))\<close>.
\<close>

theorem GaussianBinaryRBM_input_and_free_energy:
  assumes "fst (eval env v) = [n, nv]"
      and "fst (env (Shared (sigma self))) = [nv]"
      and "fst (env (Shared (weights self))) = [nv, nh]"
      and "fst (env (Shared (hidbias self))) = [nh]"
      and "fst (env (Shared (visbias self))) = [nv]"
      and "i < n" and "k < nh"
  shows "input_to_h_from_v (GaussianBinaryRBM self) v =
           Add (Shared (hidbias self))
               (Dot (TrueDiv v (Shared (sigma self))) (Shared (weights self)))
       \<and> free_energy_given_v (GaussianBinaryRBM self) v =
           Sub (SumAxis (TrueDiv (Power (Sub (Shared (visbias self)) v) (Constant 2))
                                 (Shared (sigma self))) 1)
               (SumAxis (Softplus (input_to_h_from_v (GaussianBinaryRBM self) v)) 1)
       \<and> fst (eval env (input_to_h_from_v (GaussianBinaryRBM self) v)) = [n, nh]
       \<and> snd (eval env (input_to_h_from_v (GaussianBinaryRBM self) v)) [i, k] =
           snd (env (Shared (hidbias self))) [k]
           + (\<Sum>j<nv. snd (eval env v) [i, j] / snd (env (Shared (sigma self))) [j]
                        * snd (env (Shared (weights self))) [j, k])
       \<and> fst (eval env (free_energy_given_v (GaussianBinaryRBM self) v)) = [n]
       \<and> snd (eval env (free_energy_given_v (GaussianBinaryRBM self) v)) [i] =
           (\<Sum>j<nv. (snd (env (Shared (visbias self))) [j] - snd (eval env v) [i, j])\<^sup>2
                       / snd (env (Shared (sigma self))) [j])
           - (\<Sum>k<nh. softplus
                 (snd (eval env (input_to_h_from_v (GaussianBinaryRBM self) v)) [i, k]))"
proof -
  have "input_to_h_from_v (GaussianBinaryRBM self) v =
           Add (Shared (hidbias self))
               (Dot (TrueDiv v (Shared (sigma self))) (Shared (weights self)))"
    by (simp add: GaussianBinaryRBM_input_to_h_from_v_def)
  moreover have "free_energy_given_v (GaussianBinaryRBM self) v =
           Sub (SumAxis (TrueDiv (Power (Sub (Shared (visbias self)) v) (Constant 2))
                                 (Shared (sigma self))) 1)
               (SumAxis (Softplus (input_to_h_from_v (GaussianBinaryRBM self) v)) 1)"
    by (simp add: GaussianBinaryRBM_free_energy_given_v_def)
  moreover note GaussianBinaryRBM_input_value(1) [OF assms(1-4)]
    GaussianBinaryRBM_input_value(2) [OF assms(1-4) assms(6,7)]
    GaussianBinaryRBM_free_energy_value(1) [OF assms(1-5)]
    GaussianBinaryRBM_free_energy_value(2) [OF assms(1-5) assms(6)]
  ultimately show ?thesis by (intro conjI)
qed

text \<open>
  The example Gaussian model on three examples with the entries \<open>10 i + c\<close>, weights 2,
  sigma 1 and biases 0: the input to the hidden unit for example 1 is
  \<open>(10 + 11) 2 = 42\<close>, and the free energy of example 1 is
  \<open>10\<^sup>2 + 11\<^sup>2 - softplus 42\<close>.
\<close>

theorem GaussianBinaryRBM_input_and_free_energy_witness:
  "fst (eval example_env (Variable ''v'')) = [3, 2]
   \<and> fst (example_env (Shared (sigma example_gaussian))) = [2]
   \<and> fst (example_env (Shared (weights example_gaussian))) = [2, 1]
   \<and> fst (example_env (Shared (hidbias example_gaussian))) = [1]
   \<and> fst (example_env (Shared (visbias example_gaussian))) = [2]
   \<and> (1 :: nat) < 3 \<and> (0 :: nat) < 1
   \<and> snd (eval example_env
             (input_to_h_from_v (GaussianBinaryRBM example_gaussian) (Variable ''v''))) [1, 0]
       = 42
   \<and> snd (eval example_env
             (free_energy_given_v (GaussianBinaryRBM example_gaussian) (Variable ''v''))) [1]
       = 221 - softplus 42"
proof -
  have h1: "fst (eval example_env (Variable ''v'')) = [3, 2]"
   and h2: "fst (example_env (Shared (sigma example_gaussian))) = [2]"
   and h3: "fst (example_env (Shared (weights example_gaussian))) = [2, 1]"
   and h4: "fst (example_env (Shared (hidbias example_gaussian))) = [1]"
   and h5: "fst (example_env (Shared (visbias example_gaussian))) = [2]"
    by (simp_all add: example_env_simps example_gaussian_def ndarray_shape_def)
  have i: "(1 :: nat) < 3" and k: "(0 :: nat) < 1" by simp_all
  note t = GaussianBinaryRBM_input_and_free_energy [OF h1 h2 h3 h4 h5 i k]
  note t1 = t [THEN conjunct2, THEN conjunct2, THEN conjunct2, THEN conjunct1]
  note t2 = t [THEN conjunct2, THEN conjunct2, THEN conjunct2, THEN conjunct2, THEN conjunct2]
  have a: "snd (eval example_env
             (input_to_h_from_v (GaussianBinaryRBM example_gaussian) (Variable ''v''))) [1, 0]
           = 42"
    using t1 by (simp add: example_env_simps example_gaussian_def lessThan_Suc numeral_2_eq_2)
  have b: "snd (eval example_env
             (free_energy_given_v (GaussianBinaryRBM example_gaussian) (Variable ''v''))) [1]
           = 221 - softplus 42"
    using t2 a by (simp add: example_env_simps example_gaussian_def lessThan_Suc numeral_2_eq_2)
  show ?thesis using h1 h2 h3 h4 h5 a b by simp
qed

subsection \<open>The pooled spike-and-slab model\<close>

lemma mu_pooled_ssRBM_input_value:
  assumes nh: "nhid self = int h" and ns: "n_s_per_h self = int n" and h: "0 < h" and n: "0 < n"
      and sv: "fst (eval env v) = [r, nv]"
      and sL: "fst (env (Shared (Lambda self))) = [nv, h]"
      and sW: "fst (env (Shared (vis_W self))) = [nv, h * n]"
      and sm: "fst (env (Shared (mu self))) = [h * n]"
      and sa: "fst (eval env (alpha self)) = [h * n]"
      and sb: "fst (env (Shared (hid_b self))) = [h]"
      and i: "i < r" and j: "j < h"
  shows "fst (eval env (input_to_h_from_v (mu_pooled_ssRBM self) v)) = [r, h]"
    and "snd (eval env (input_to_h_from_v (mu_pooled_ssRBM self) v)) [i, j] =
           snd (env (Shared (hid_b self))) [j]
           + - (1 / 2) * (\<Sum>l<nv. snd (eval env v) [i, l] * snd (eval env v) [i, l]
                                     * snd (env (Shared (Lambda self))) [l, j])
           + (\<Sum>k<n. snd (env (Shared (mu self))) [j * n + k]
                        * (\<Sum>l<nv. snd (eval env v) [i, l]
                                     * snd (env (Shared (vis_W self))) [l, j * n + k]))
           + (\<Sum>k<n. 1 / 2 * (\<Sum>l<nv. snd (eval env v) [i, l]
                                     * snd (env (Shared (vis_W self))) [l, j * n + k])\<^sup>2
                        / snd (eval env (alpha self)) [j * n + k])"
proof -
  let ?vW = "Dot v (Shared (vis_W self))"
  let ?x1 = "Mul (Shared (mu self)) ?vW"
  let ?x2 = "TrueDiv (Mul (Constant 0.5) (Sqr ?vW)) (alpha self)"
  have s1: "fst (eval env ?x1) = [r, h * n]" and s2: "fst (eval env ?x2) = [r, h * n]"
    using sv sW sm sa by (simp_all add: eval_defs)
  have e1: "snd (eval env ?x1) [i, c] = snd (env (Shared (mu self))) [c]
              * (\<Sum>l<nv. snd (eval env v) [i, l] * snd (env (Shared (vis_W self))) [l, c])"
    if "c < h * n" for c
    using sv sW sm i that by (auto simp: eval_defs)
  have e2: "snd (eval env ?x2) [i, c] =
              1 / 2 * (\<Sum>l<nv. snd (eval env v) [i, l] * snd (env (Shared (vis_W self))) [l, c])\<^sup>2
              / snd (eval env (alpha self)) [c]"
    if "c < h * n" for c
    using sv sW sa i that by (auto simp: eval_defs power2_eq_square)
  have p1: "snd (eval env (sum_s self ?x1)) [i, j] =
              (\<Sum>k<n. snd (env (Shared (mu self))) [j * n + k]
                        * (\<Sum>l<nv. snd (eval env v) [i, l]
                                     * snd (env (Shared (vis_W self))) [l, j * n + k]))"
    unfolding sum_s_entry [OF nh ns h n s1 j]
    by (intro sum.cong refl e1 group_offset_less [OF j]) simp
  have p2: "snd (eval env (sum_s self ?x2)) [i, j] =
              (\<Sum>k<n. 1 / 2 * (\<Sum>l<nv. snd (eval env v) [i, l]
                                     * snd (env (Shared (vis_W self))) [l, j * n + k])\<^sup>2
                        / snd (eval env (alpha self)) [j * n + k])"
    unfolding sum_s_entry [OF nh ns h n s2 j]
    by (intro sum.cong refl e2 group_offset_less [OF j]) simp
  have q1: "fst (eval env (sum_s self ?x1)) = [r, h]" by (rule sum_s_shape [OF nh ns h n s1])
  have q2: "fst (eval env (sum_s self ?x2)) = [r, h]" by (rule sum_s_shape [OF nh ns h n s2])
  show "fst (eval env (input_to_h_from_v (mu_pooled_ssRBM self) v)) = [r, h]"
    using sv sL sb q1 q2
    by (simp add: mu_pooled_ssRBM_input_to_h_from_v_def elemwise1_def elemwise2_def dot_def
          broadcast_shape_def Let_def)
  show "snd (eval env (input_to_h_from_v (mu_pooled_ssRBM self) v)) [i, j] =
           snd (env (Shared (hid_b self))) [j]
           + - (1 / 2) * (\<Sum>l<nv. snd (eval env v) [i, l] * snd (eval env v) [i, l]
                                     * snd (env (Shared (Lambda self))) [l, j])
           + (\<Sum>k<n. snd (env (Shared (mu self))) [j * n + k]
                        * (\<Sum>l<nv. snd (eval env v) [i, l]
                                     * snd (env (Shared (vis_W self))) [l, j * n + k]))
           + (\<Sum>k<n. 1 / 2 * (\<Sum>l<nv. snd (eval env v) [i, l]
                                     * snd (env (Shared (vis_W self))) [l, j * n + k])\<^sup>2
                        / snd (eval env (alpha self)) [j * n + k])"
    using sv sL sb q1 q2 i j p1 p2
    by (simp add: mu_pooled_ssRBM_input_to_h_from_v_def elemwise1_def elemwise2_def dot_def
          broadcast_shape_def broadcast_index_def entry_at_def axis_length_def Let_def)
qed

lemma mu_pooled_ssRBM_free_energy_value:
  assumes "fst (eval env v) = [r, nv]"
      and "fst (env (Shared (vis_B self))) = [nv]"
      and "fst (eval env (input_to_h_from_v (mu_pooled_ssRBM self) v)) = [r, h]"
      and "i < r"
  shows "fst (eval env (free_energy_given_v (mu_pooled_ssRBM self) v)) = [r]"
    and "snd (eval env (free_energy_given_v (mu_pooled_ssRBM self) v)) [i] =
           1 / 2 * (\<Sum>l<nv. snd (env (Shared (vis_B self))) [l] * (snd (eval env v) [i, l])\<^sup>2)
           + - (\<Sum>j<h. softplus
                  (snd (eval env (input_to_h_from_v (mu_pooled_ssRBM self) v)) [i, j]))"
  using assms
  by (simp_all add: mu_pooled_ssRBM_free_energy_given_v_def eval_defs power2_eq_square)

text \<open>
  C8. For every visible configuration \<open>v\<close>, the pooled spike-and-slab model builds the
  input to the hidden units as the sum of \<open>b\<close>, of \<open>-0.5\<close> times the product of
  \<open>v * v\<close> with \<open>Lambda\<close>, of the pooled \<open>mu * (v W)\<close> and of the pooled
  \<open>0.5 (v W)\<^sup>2 / alpha\<close>; and its free energy as \<open>0.5\<close> times the sum along axis 1
  of \<open>B * v\<^sup>2\<close> plus the negated sum along axis 1 of the softplus of that input.
  Evaluated for a model of \<open>h\<close> hidden units with \<open>n\<close> slab units each, on \<open>r\<close>
  examples of \<open>nv\<close> visible units and parameters of the matching shapes: pooling an
  array \<open>x\<close> of \<open>h n\<close> columns gives an array of \<open>h\<close> columns whose entry \<open>(i, j)\<close>
  is the sum of the \<open>n\<close> entries of row \<open>i\<close> of \<open>x\<close> in the columns \<open>j n\<close> to
  \<open>j n + n - 1\<close>; the input to hidden unit \<open>j\<close> for example \<open>i\<close> is
  \<open>b j - (\<Sum>l. (v i l)\<^sup>2 Lambda l j) / 2 + (\<Sum>k<n. mu c (v W) i c)
    + (\<Sum>k<n. ((v W) i c)\<^sup>2 / 2 / alpha c)\<close> with \<open>c = j n + k\<close>; and the free energy
  of example \<open>i\<close> is \<open>(\<Sum>l. B l (v i l)\<^sup>2) / 2 - (\<Sum>j<h. softplus (input i j))\<close>.
\<close>

theorem mu_pooled_ssRBM_input_and_free_energy:
  assumes "nhid self = int h" and "n_s_per_h self = int n" and "0 < h" and "0 < n"
      and "fst (eval env v) = [r, nv]"
      and "fst (env (Shared (Lambda self))) = [nv, h]"
      and "fst (env (Shared (vis_W self))) = [nv, h * n]"
      and "fst (env (Shared (mu self))) = [h * n]"
      and "fst (eval env (alpha self)) = [h * n]"
      and "fst (env (Shared (hid_b self))) = [h]"
      and "fst (env (Shared (vis_B self))) = [nv]"
      and "fst (eval env x) = [r, h * n]"
      and "i < r" and "j < h"
  shows "input_to_h_from_v (mu_pooled_ssRBM self) v =
           AddN [Shared (hid_b self),
                 Mul (Constant (- 0.5)) (Dot (Mul v v) (Shared (Lambda self))),
                 sum_s self (Mul (Shared (mu self)) (Dot v (Shared (vis_W self)))),
                 sum_s self (TrueDiv (Mul (Constant 0.5) (Sqr (Dot v (Shared (vis_W self)))))
                                     (alpha self))]
       \<and> free_energy_given_v (mu_pooled_ssRBM self) v =
           AddN [Mul (Constant 0.5)
                     (SumAxis (Mul (Shared (vis_B self)) (Power v (Constant 2))) 1),
                 Neg (SumAxis (Softplus (input_to_h_from_v (mu_pooled_ssRBM self) v)) 1)]
       \<and> fst (eval env (sum_s self x)) = [r, h]
       \<and> snd (eval env (sum_s self x)) [i, j] = (\<Sum>k<n. snd (eval env x) [i, j * n + k])
       \<and> fst (eval env (input_to_h_from_v (mu_pooled_ssRBM self) v)) = [r, h]
       \<and> snd (eval env (input_to_h_from_v (mu_pooled_ssRBM self) v)) [i, j] =
           snd (env (Shared (hid_b self))) [j]
           + - (1 / 2) * (\<Sum>l<nv. snd (eval env v) [i, l] * snd (eval env v) [i, l]
                                     * snd (env (Shared (Lambda self))) [l, j])
           + (\<Sum>k<n. snd (env (Shared (mu self))) [j * n + k]
                        * (\<Sum>l<nv. snd (eval env v) [i, l]
                                     * snd (env (Shared (vis_W self))) [l, j * n + k]))
           + (\<Sum>k<n. 1 / 2 * (\<Sum>l<nv. snd (eval env v) [i, l]
                                     * snd (env (Shared (vis_W self))) [l, j * n + k])\<^sup>2
                        / snd (eval env (alpha self)) [j * n + k])
       \<and> fst (eval env (free_energy_given_v (mu_pooled_ssRBM self) v)) = [r]
       \<and> snd (eval env (free_energy_given_v (mu_pooled_ssRBM self) v)) [i] =
           1 / 2 * (\<Sum>l<nv. snd (env (Shared (vis_B self))) [l] * (snd (eval env v) [i, l])\<^sup>2)
           + - (\<Sum>j<h. softplus
                  (snd (eval env (input_to_h_from_v (mu_pooled_ssRBM self) v)) [i, j]))"
proof -
  have "input_to_h_from_v (mu_pooled_ssRBM self) v =
           AddN [Shared (hid_b self),
                 Mul (Constant (- 0.5)) (Dot (Mul v v) (Shared (Lambda self))),
                 sum_s self (Mul (Shared (mu self)) (Dot v (Shared (vis_W self)))),
                 sum_s self (TrueDiv (Mul (Constant 0.5) (Sqr (Dot v (Shared (vis_W self)))))
                                     (alpha self))]"
    by (simp add: mu_pooled_ssRBM_input_to_h_from_v_def Let_def)
  moreover have "free_energy_given_v (mu_pooled_ssRBM self) v =
           AddN [Mul (Constant 0.5)
                     (SumAxis (Mul (Shared (vis_B self)) (Power v (Constant 2))) 1),
                 Neg (SumAxis (Softplus (input_to_h_from_v (mu_pooled_ssRBM self) v)) 1)]"
    by (simp add: mu_pooled_ssRBM_free_energy_given_v_def Let_def)
  moreover note sum_s_shape [OF assms(1-4) assms(12)]
    sum_s_entry [OF assms(1-4) assms(12) assms(14)]
  moreover note iv = mu_pooled_ssRBM_input_value [OF assms(1-10) assms(13,14)]
  moreover note mu_pooled_ssRBM_free_energy_value [OF assms(5) assms(11) iv(1) assms(13)]
  ultimately show ?thesis by (intro conjI)
qed

text \<open>
  The example pooled model, one hidden unit over two slab units, on three examples with
  the entries \<open>10 i + c\<close> and every parameter 2: the pooled entry of row 1 of the input
  is \<open>10 + 11\<close>, and the free energy has one entry for each of the three examples.
\<close>

theorem mu_pooled_ssRBM_input_and_free_energy_witness:
  "nhid example_ssrbm = int 1 \<and> n_s_per_h example_ssrbm = int 2
   \<and> (0 :: nat) < 1 \<and> (0 :: nat) < 2
   \<and> fst (eval example_env (Variable ''v'')) = [3, 2]
   \<and> fst (example_env (Shared (Lambda example_ssrbm))) = [2, 1]
   \<and> fst (example_env (Shared (vis_W example_ssrbm))) = [2, 1 * 2]
   \<and> fst (example_env (Shared (mu example_ssrbm))) = [1 * 2]
   \<and> fst (eval example_env (alpha example_ssrbm)) = [1 * 2]
   \<and> fst (example_env (Shared (hid_b example_ssrbm))) = [1]
   \<and> fst (example_env (Shared (vis_B example_ssrbm))) = [2]
   \<and> (1 :: nat) < 3
   \<and> fst (eval example_env (sum_s example_ssrbm (Variable ''v''))) = [3, 1]
   \<and> snd (eval example_env (sum_s example_ssrbm (Variable ''v''))) [1, 0] = 21
   \<and> fst (eval example_env (free_energy_given_v (mu_pooled_ssRBM example_ssrbm)
             (Variable ''v''))) = [3]"
proof -
  have h1: "nhid example_ssrbm = int 1" and h2: "n_s_per_h example_ssrbm = int 2"
    by (simp_all add: example_ssrbm_def)
  have h3: "(0 :: nat) < 1" and h4: "(0 :: nat) < 2" and h13: "(1 :: nat) < 3" by simp_all
  have h5: "fst (eval example_env (Variable ''v'')) = [3, 2]"
   and h6: "fst (example_env (Shared (Lambda example_ssrbm))) = [2, 1]"
   and h7: "fst (example_env (Shared (vis_W example_ssrbm))) = [2, 1 * 2]"
   and h8: "fst (example_env (Shared (mu example_ssrbm))) = [1 * 2]"
   and h9: "fst (eval example_env (alpha example_ssrbm)) = [1 * 2]"
   and h10: "fst (example_env (Shared (hid_b example_ssrbm))) = [1]"
   and h11: "fst (example_env (Shared (vis_B example_ssrbm))) = [2]"
   and h12: "fst (eval example_env (Variable ''v'')) = [3, 1 * 2]"
    by (simp_all add: example_env_simps example_ssrbm_def ndarray_shape_def elemwise1_def)
  note t = mu_pooled_ssRBM_input_and_free_energy
             [OF h1 h2 h3 h4 h5 h6 h7 h8 h9 h10 h11 h12 h13 h3]
  note t3 = t [THEN conjunct2, THEN conjunct2, THEN conjunct1]
  note t4 = t [THEN conjunct2, THEN conjunct2, THEN conjunct2, THEN conjunct1]
  note t7 = t [THEN conjunct2, THEN conjunct2, THEN conjunct2, THEN conjunct2, THEN conjunct2,
               THEN conjunct2, THEN conjunct1]
  have a: "snd (eval example_env (sum_s example_ssrbm (Variable ''v''))) [1, 0] = 21"
    using t4 by (simp add: example_env_simps lessThan_Suc numeral_2_eq_2)
  show ?thesis
    using h1 h2 h5 h6 h7 h8 h9 h10 h11 t3 a t7 by simp
qed

subsection \<open>The stacking utility\<close>

text \<open>
  Every layer that the loop of \<^verbatim>\<open>build_stacked_RBM\<close> appends for a binary input is
  constructed as \<^verbatim>\<open>RBM(nvis - nvis, ...)\<close>, with no visible unit; and for a Gaussian
  input the function raises before it constructs anything.
\<close>

lemma RBM_init_nvis:
  "RBM_init nv nh bs ir rng st = (Inr self, st') \<Longrightarrow> nvis self = nv \<and> nhid self = nh"
  by (auto simp: RBM_init_def Let_def sharedX_def split: sum.splits)

lemma build_layers_binary_nvis:
  assumes "vis_type \<noteq> ''gaussian''"
      and "build_layers seq bs vis_type imv ir rng layers st = (Inr out, st')"
      and "\<forall>m \<in> set layers. nvis (attrs m) = 0"
  shows "\<forall>m \<in> set out. nvis (attrs m) = 0"
  using assms(2,3)
proof (induction seq arbitrary: layers st)
  case Nil
  then show ?case by simp
next
  case (Cons x seq)
  obtain k nh nv where x: "x = (k, nh, nv)" by (cases x) auto
  obtain r st1 where r: "RBM_init (nv - nv) nh bs ir rng st = (r, st1)" by (cases "RBM_init (nv - nv) nh bs ir rng st")
  show ?case
  proof (cases r)
    case (Inl e)
    with Cons.prems(1) x r assms(1) show ?thesis by simp
  next
    case (Inr self)
    have "nvis self = 0" using RBM_init_nvis [of "nv - nv" nh bs ir rng st self st1] r Inr by simp
    then have "\<forall>m \<in> set (layers @ [RBM self]). nvis (attrs m) = 0"
      using Cons.prems(2) by (simp add: Block_obj.truncate_def)
    moreover have "build_layers seq bs vis_type imv ir rng (layers @ [RBM self]) st1 = (Inr out, st')"
      using Cons.prems(1) x r Inr assms(1) by simp
    ultimately show ?thesis by (rule Cons.IH [rotated])
  qed
qed

lemma build_stacked_RBM_gaussian_raises:
  "build_stacked_RBM nv nhids bs ''gaussian'' imv ir rng st = (Inl TypeError, st)"
  by (simp add: build_stacked_RBM_def)

text \<open>
  C9. The stacking utility is specified to chain the sizes: layer \<open>k \<ge> 1\<close> has as many
  visible units as layer \<open>k - 1\<close> has hidden units, and layer 0 as many as the input;
  the comment above \<^verbatim>\<open>nviss\<close> in the code says the same. The code does not do this.
  For the input size 3 and the hidden sizes 4 and 2 \<^verbatim>\<open>build_stacked_RBM\<close> returns two
  layers whose pairs (visible units, hidden units) are \<open>(0, 4)\<close> and \<open>(0, 2)\<close>, where
  chained sizes are \<open>(3, 4)\<close> and \<open>(4, 2)\<close>.
\<close>

theorem build_stacked_RBM_no_visible_units:
  "(case fst (build_stacked_RBM 3 [4, 2] 10 ''binary'' None (1 / 1000) PyNone example_state0) of
      Inl e \<Rightarrow> []
    | Inr (StackedBlocks layers) \<Rightarrow> map (\<lambda>m. (nvis (attrs m), nhid (attrs m))) layers)
     = [(0, 4), (0, 2)]"
  by (simp add: build_stacked_RBM_def RBM_init_def numpy_zeros_def negative_dimension_def rand_def
        sharedX_def Let_def upt_rec example_state0_def Block_obj.truncate_def)

end
